theory Spec2Isabelle
  imports Complex_Main
begin

section \<open>Data model\<close>

text \<open>
  The engine of \<^verbatim>\<open>accuracy_check.py\<close> works on three pandas DataFrames. A cell of
  such a frame is loosely typed: it is null (\<^verbatim>\<open>None\<close> or \<^verbatim>\<open>numpy.nan\<close>, which
  \<^verbatim>\<open>isna\<close> does not tell apart), a string, a number, or, once
  \<^verbatim>\<open>pd.to_datetime\<close> has run, a timestamp. Floating-point numbers are modelled as
  reals: rounding, infinities and the NaN results of arithmetic are outside the model.
\<close>

datatype cell = NaN | Str string | Num real | Timestamp int

text \<open>
  A row is read by column label. A frame has its column labels, in order (distinct, as the
  keys of the JSON object the frame is built from), and its rows under the default index
  \<open>0, 1, 2, \<dots>\<close>, so that the label of a row is its position. Reading a column whose
  label is not among \<open>columns\<close> raises \<^verbatim>\<open>KeyError\<close>.
\<close>

type_synonym row = "string \<Rightarrow> cell"

record frame =
  columns :: "string list"
  rows :: "row list"

datatype error = KeyError string | UnboundLocalError string

fun isna :: "cell \<Rightarrow> bool" where
  "isna NaN = True"
| "isna (Str s) = False"
| "isna (Num x) = False"
| "isna (Timestamp t) = False"

definition notna :: "cell \<Rightarrow> bool" where
  "notna c = (\<not> isna c)"

definition getcol :: "frame \<Rightarrow> string \<Rightarrow> error + cell list" where
  "getcol df c =
     (if c \<in> set (columns df) then Inr (map (\<lambda>r. r c) (rows df)) else Inl (KeyError c))"

definition mapcol :: "frame \<Rightarrow> string \<Rightarrow> (cell \<Rightarrow> cell) \<Rightarrow> frame" where
  \<comment> \<open>\<^verbatim>\<open>df[c] = f(df[c])\<close> for a column that exists and a function applied cell by cell\<close>
  "mapcol df c f = df\<lparr>rows := map (\<lambda>r. r(c := f (r c))) (rows df)\<rparr>"

text \<open>
  What the model takes from pandas and Python as parameters: how a string cell parses as a
  number (\<^verbatim>\<open>pd.to_numeric\<close>), how a cell parses as a date under the format
  \<^verbatim>\<open>%d-%b-%y\<close> (\<^verbatim>\<open>pd.to_datetime\<close>, \<open>None\<close> when it raises), how an
  f-string prints a number, and the texts of the exceptions the two parsers raise on a
  column.
\<close>

record pandas_lib =
  str_to_num :: "string \<Rightarrow> real option"
  to_datetime1 :: "cell \<Rightarrow> int option"
  fmt :: "real \<Rightarrow> string"
  numeric_error :: "cell list \<Rightarrow> string"
  datetime_error :: "cell list \<Rightarrow> string"

text \<open>\<^verbatim>\<open>str\<close> of a row index, and \<^verbatim>\<open>', '.join\<close>.\<close>

definition digit :: "nat \<Rightarrow> char" where
  "digit d = ''0123456789'' ! (d mod 10)"

function str_nat :: "nat \<Rightarrow> string" where
  "str_nat n = (if n < 10 then [digit n] else str_nat (n div 10) @ [digit (n mod 10)])"
  by pat_completeness auto
termination
  by (relation "measure id") auto

declare str_nat.simps [simp del]

fun join_comma :: "string list \<Rightarrow> string" where
  "join_comma [] = []"
| "join_comma [x] = x"
| "join_comma (x # y # ys) = x @ '', '' @ join_comma (y # ys)"

fun str_error :: "error \<Rightarrow> string" where
  "str_error (KeyError k) = [CHR 0x27] @ k @ [CHR 0x27]"
| "str_error (UnboundLocalError v) =
     ''cannot access local variable '' @ [CHR 0x27] @ v @ [CHR 0x27]
       @ '' where it is not associated with a value''"

section \<open>Normalizer\<close>

text \<open>
  \<^verbatim>\<open>df.replace(['', 'nan', 'null', 'none', 'None'], np.nan)\<close>: a cell equal to one
  of the listed values becomes NaN, and a new frame is returned.
\<close>

definition null_strings :: "string list" where
  "null_strings = ['''', ''nan'', ''null'', ''none'', ''None'']"

fun replace_cell :: "string list \<Rightarrow> cell \<Rightarrow> cell" where
  "replace_cell to_replace (Str s) = (if s \<in> set to_replace then NaN else Str s)"
| "replace_cell to_replace NaN = NaN"
| "replace_cell to_replace (Num x) = Num x"
| "replace_cell to_replace (Timestamp t) = Timestamp t"

definition standardize_nulls :: "frame \<Rightarrow> frame" where
  "standardize_nulls df = df\<lparr>rows := map (\<lambda>r c. replace_cell null_strings (r c)) (rows df)\<rparr>"

section \<open>Step 1: missing values\<close>

text \<open>
  The three conditions are elementwise expressions over whole columns: every operand is
  read before the rows are looked at, left to right, so the first column the frame lacks
  raises \<^verbatim>\<open>KeyError\<close>.
\<close>

definition first_missing :: "frame \<Rightarrow> string list \<Rightarrow> string option" where
  "first_missing df cs = find (\<lambda>c. c \<notin> set (columns df)) cs"

definition invoice_reads :: "string list" where
  "invoice_reads = [''invoice_number'', ''invoice_date'', ''place_of_supply'',
     ''place_of_origin'', ''receiver_name'', ''gstin_supplier'', ''taxable_value'',
     ''invoice_value'', ''tax_amount'']"

definition line_items_reads :: "string list" where
  "line_items_reads = [''tax_amount'', ''tax_rate'', ''sgst_amount'', ''cgst_amount'',
     ''igst_amount'', ''sgst_rate'', ''cgst_rate'', ''igst_rate'', ''final_amount'',
     ''taxable_value'', ''rate_per_item_after_discount'', ''quantity'']"

definition summary_reads :: "string list" where
  "summary_reads = [''total_taxable_value'', ''total_invoice_value'', ''total_tax_amount'',
     ''total_igst_amount'', ''total_cgst_amount'', ''total_sgst_amount'']"

definition invoice_condition :: "row \<Rightarrow> bool" where
  "invoice_condition r =
     (notna (r ''invoice_number'') \<and>
      notna (r ''invoice_date'') \<and>
      notna (r ''place_of_supply'') \<and>
      notna (r ''place_of_origin'') \<and>
      notna (r ''receiver_name'') \<and>
      notna (r ''gstin_supplier'') \<and>
      (notna (r ''taxable_value'') \<or> notna (r ''invoice_value'')) \<and>
      notna (r ''tax_amount''))"

definition line_items_condition :: "row \<Rightarrow> bool" where
  "line_items_condition r =
     ((notna (r ''tax_amount'') \<or>
       notna (r ''tax_rate'') \<or>
       (notna (r ''sgst_amount'') \<and> notna (r ''cgst_amount'')) \<or>
       notna (r ''igst_amount'') \<or>
       (notna (r ''sgst_rate'') \<and> notna (r ''cgst_rate'')) \<or>
       notna (r ''igst_rate'')) \<and>
      (notna (r ''final_amount'') \<or>
       notna (r ''taxable_value'') \<or>
       (notna (r ''rate_per_item_after_discount'') \<and> notna (r ''quantity''))))"

definition summary_condition :: "row \<Rightarrow> bool" where
  "summary_condition r =
     ((notna (r ''total_taxable_value'') \<or>
       notna (r ''total_invoice_value'')) \<and>
      (notna (r ''total_tax_amount'') \<or>
       notna (r ''total_igst_amount'') \<or>
       (notna (r ''total_cgst_amount'') \<and>
        notna (r ''total_sgst_amount''))))"

text \<open>
  \<^verbatim>\<open>cond[~cond].index[0]\<close>: the position of the first row whose condition is false;
  \<open>None\<close> when \<^verbatim>\<open>cond.all()\<close> holds.
\<close>

fun first_false :: "bool list \<Rightarrow> nat option" where
  "first_false [] = None"
| "first_false (b # bs) = (if b then map_option Suc (first_false bs) else Some 0)"

definition missing_cols :: "frame \<Rightarrow> nat \<Rightarrow> string list" where
  "missing_cols df row_idx = filter (\<lambda>col. isna ((rows df ! row_idx) col)) (columns df)"

definition check_missing_values :: "frame \<Rightarrow> frame \<Rightarrow> frame \<Rightarrow> error + bool \<times> string" where
  "check_missing_values invoice_df line_items_df total_summary_df =
     (case first_missing invoice_df invoice_reads of
        Some c \<Rightarrow> Inl (KeyError c)
      | None \<Rightarrow>
     (case first_false (map invoice_condition (rows invoice_df)) of
        Some row_idx \<Rightarrow>
          Inr (False, ''Missing required values in invoice_df: ''
                 @ join_comma (missing_cols invoice_df row_idx)
                 @ '' at row '' @ str_nat row_idx)
      | None \<Rightarrow>
     (case first_missing line_items_df line_items_reads of
        Some c \<Rightarrow> Inl (KeyError c)
      | None \<Rightarrow>
     (case first_false (map line_items_condition (rows line_items_df)) of
        Some row_idx \<Rightarrow>
          Inr (False, ''Missing required values in line_items_df at row '' @ str_nat row_idx)
      | None \<Rightarrow>
     (case first_missing total_summary_df summary_reads of
        Some c \<Rightarrow> Inl (KeyError c)
      | None \<Rightarrow>
     (case first_false (map summary_condition (rows total_summary_df)) of
        Some row_idx \<Rightarrow>
          Inr (False, ''Missing required values in total_summary_df at row '' @ str_nat row_idx)
      | None \<Rightarrow> Inr (True, [])))))))"

section \<open>Step 2: data types\<close>

text \<open>
  \<^verbatim>\<open>pd.to_numeric\<close> on a column without nulls raises when a string does not parse
  (a timestamp is no number either). The whole step runs inside \<^verbatim>\<open>try\<close>: every
  exception, a \<^verbatim>\<open>KeyError\<close> included, becomes the failure message.
\<close>

fun to_numeric_ok :: "pandas_lib \<Rightarrow> cell \<Rightarrow> bool" where
  "to_numeric_ok lib NaN = True"
| "to_numeric_ok lib (Num x) = True"
| "to_numeric_ok lib (Str s) = (str_to_num lib s \<noteq> None)"
| "to_numeric_ok lib (Timestamp t) = False"

definition check_numeric_col :: "pandas_lib \<Rightarrow> frame \<Rightarrow> string \<Rightarrow> string option" where
  "check_numeric_col lib df col =
     (case getcol df col of
        Inl e \<Rightarrow> Some (str_error e)
      | Inr cs \<Rightarrow>
          if list_all isna cs then None
          else (let xs = filter notna cs
                in if list_all (to_numeric_ok lib) xs then None
                   else Some (numeric_error lib xs)))"

fun first_raised :: "('a \<Rightarrow> string option) \<Rightarrow> 'a list \<Rightarrow> string option" where
  "first_raised f [] = None"
| "first_raised f (x # xs) = (case f x of Some m \<Rightarrow> Some m | None \<Rightarrow> first_raised f xs)"

definition numeric_cols_invoice :: "string list" where
  "numeric_cols_invoice = [''place_of_supply'', ''place_of_origin'', ''taxable_value'',
     ''invoice_value'', ''tax_amount'']"

definition numeric_cols_items :: "string list" where
  "numeric_cols_items = [''quantity'', ''rate_per_item_after_discount'', ''taxable_value'',
     ''sgst_amount'', ''cgst_amount'', ''igst_amount'', ''sgst_rate'',
     ''cgst_rate'', ''igst_rate'', ''tax_amount'', ''tax_rate'', ''final_amount'']"

definition numeric_cols_summary :: "string list" where
  "numeric_cols_summary = [''total_taxable_value'', ''total_cgst_amount'', ''total_sgst_amount'',
     ''total_igst_amount'', ''total_tax_amount'', ''total_invoice_value'',
     ''rounding_adjustment'']"

definition to_datetime_cell :: "pandas_lib \<Rightarrow> cell \<Rightarrow> cell" where
  "to_datetime_cell lib c =
     (if isna c then NaN
      else case to_datetime1 lib c of Some t \<Rightarrow> Timestamp t | None \<Rightarrow> c)"

definition conversion_failed :: "string \<Rightarrow> bool \<times> string" where
  "conversion_failed m = (False, ''Data type conversion failed: '' @ m)"

text \<open>
  The step assigns the parsed dates to the \<^verbatim>\<open>invoice_date\<close> column of the invoice
  frame, so it returns that frame beside its result.
\<close>

definition check_data_types ::
  "pandas_lib \<Rightarrow> frame \<Rightarrow> frame \<Rightarrow> frame \<Rightarrow> (bool \<times> string) \<times> frame" where
  "check_data_types lib invoice_df line_items_df total_summary_df =
     (case getcol invoice_df ''invoice_date'' of
        Inl e \<Rightarrow> (conversion_failed (str_error e), invoice_df)
      | Inr ds \<Rightarrow>
          if \<not> list_all (\<lambda>c. isna c \<or> to_datetime1 lib c \<noteq> None) ds
          then (conversion_failed (datetime_error lib ds), invoice_df)
          else
            (let invoice_df' = mapcol invoice_df ''invoice_date'' (to_datetime_cell lib)
             in case first_raised (check_numeric_col lib invoice_df') numeric_cols_invoice of
                  Some m \<Rightarrow> (conversion_failed m, invoice_df')
                | None \<Rightarrow>
               (case first_raised (check_numeric_col lib line_items_df) numeric_cols_items of
                  Some m \<Rightarrow> (conversion_failed m, invoice_df')
                | None \<Rightarrow>
               (case first_raised (check_numeric_col lib total_summary_df) numeric_cols_summary of
                  Some m \<Rightarrow> (conversion_failed m, invoice_df')
                | None \<Rightarrow> ((True, []), invoice_df')))))"

section \<open>Step 3: relations\<close>

text \<open>
  \<^verbatim>\<open>np.isclose(a, b, rtol=1e-05)\<close> leaves numpy's \<^verbatim>\<open>atol\<close> at its default
  \<^verbatim>\<open>1e-08\<close>; numpy computes \<^verbatim>\<open>absolute(a - b) <= (atol + rtol * absolute(b))\<close>.
  The model evaluates this expression over the reals. numpy evaluates it in 64-bit floating
  point, so the two can differ where the two sides are within rounding of each other and
  where a value overflows; no general law of the real expression is claimed of the code,
  and the examples stay far from both.
\<close>

definition atol :: real where
  "atol = 1 / 10 ^ 8"

definition rtol :: real where
  "rtol = 1 / 10 ^ 5"

definition isclose :: "real \<Rightarrow> real \<Rightarrow> bool" where
  "isclose a b = (\<bar>a - b\<bar> \<le> atol + rtol * \<bar>b\<bar>)"

text \<open>
  \<^verbatim>\<open>pd.to_numeric(df[col], errors='coerce')\<close>, for each listed column the frame has:
  what does not parse becomes NaN.
\<close>

fun to_numeric_coerce :: "pandas_lib \<Rightarrow> cell \<Rightarrow> cell" where
  "to_numeric_coerce lib NaN = NaN"
| "to_numeric_coerce lib (Num x) = Num x"
| "to_numeric_coerce lib (Str s) = (case str_to_num lib s of Some x \<Rightarrow> Num x | None \<Rightarrow> NaN)"
| "to_numeric_coerce lib (Timestamp t) = NaN"

definition coerce_cols :: "pandas_lib \<Rightarrow> string list \<Rightarrow> frame \<Rightarrow> frame" where
  "coerce_cols lib cols df =
     fold (\<lambda>col d. if col \<in> set (columns d) then mapcol d col (to_numeric_coerce lib) else d)
       cols df"

definition relation_cols_invoice :: "string list" where
  "relation_cols_invoice = [''taxable_value'', ''invoice_value'', ''tax_amount'']"

definition relation_cols_items :: "string list" where
  "relation_cols_items = [''rate_per_item_after_discount'', ''quantity'', ''taxable_value'',
     ''sgst_amount'', ''cgst_amount'', ''igst_amount'', ''sgst_rate'',
     ''cgst_rate'', ''igst_rate'', ''tax_amount'', ''tax_rate'', ''final_amount'']"

definition relation_cols_summary :: "string list" where
  "relation_cols_summary = [''total_taxable_value'', ''total_cgst_amount'', ''total_sgst_amount'',
     ''total_igst_amount'', ''total_tax_amount'', ''total_invoice_value'',
     ''rounding_adjustment'']"

text \<open>
  \<^verbatim>\<open>row[c]\<close> in the loops, on a coerced column: the float of the cell, \<open>None\<close>
  when \<^verbatim>\<open>pd.isna\<close> holds of it, \<^verbatim>\<open>KeyError\<close> when the frame has no such column.
  (A coerced column holds nulls and numbers only: lemma \<open>coerce_cols_kind\<close>.)
\<close>

fun float_of :: "cell \<Rightarrow> real option" where
  "float_of (Num x) = Some x"
| "float_of NaN = None"
| "float_of (Str s) = None"
| "float_of (Timestamp t) = None"

definition rd :: "frame \<Rightarrow> row \<Rightarrow> string \<Rightarrow> error + real option" where
  "rd df r c = (if c \<in> set (columns df) then Inr (float_of (r c)) else Inl (KeyError c))"

definition bind_err :: "error + 'a \<Rightarrow> ('a \<Rightarrow> error + 'b) \<Rightarrow> error + 'b" where
  "bind_err m f = (case m of Inl e \<Rightarrow> Inl e | Inr x \<Rightarrow> f x)"

text \<open>
  A loop over \<^verbatim>\<open>df.iterrows()\<close> whose body either returns a failure message, raises,
  or goes on to the next row.
\<close>

fun iterrows :: "(nat \<Rightarrow> row \<Rightarrow> error + string option) \<Rightarrow> nat \<Rightarrow> row list \<Rightarrow> error + string option" where
  "iterrows check idx [] = Inr None"
| "iterrows check idx (r # rs) =
     (case check idx r of
        Inl e \<Rightarrow> Inl e
      | Inr (Some m) \<Rightarrow> Inr (Some m)
      | Inr None \<Rightarrow> iterrows check (Suc idx) rs)"

subsection \<open>Invoice rows\<close>

definition invoice_mismatch :: "pandas_lib \<Rightarrow> nat \<Rightarrow> real \<Rightarrow> real \<Rightarrow> real \<Rightarrow> string" where
  "invoice_mismatch lib idx invoice_value taxable_value tax_amount =
     ''Invoice value mismatch at row '' @ str_nat idx @ '': '' @ fmt lib invoice_value
       @ '' != '' @ fmt lib taxable_value @ '' + '' @ fmt lib tax_amount"

definition invoice_row_check :: "pandas_lib \<Rightarrow> frame \<Rightarrow> nat \<Rightarrow> row \<Rightarrow> error + string option" where
  "invoice_row_check lib df idx r =
     bind_err (rd df r ''invoice_value'') (\<lambda>iv. case iv of None \<Rightarrow> Inr None | Some invoice_value \<Rightarrow>
     bind_err (rd df r ''taxable_value'') (\<lambda>tv. case tv of None \<Rightarrow> Inr None | Some taxable_value \<Rightarrow>
     bind_err (rd df r ''tax_amount'') (\<lambda>ta. case ta of None \<Rightarrow> Inr None | Some tax_amount \<Rightarrow>
       if \<not> isclose invoice_value (taxable_value + tax_amount)
       then Inr (Some (invoice_mismatch lib idx invoice_value taxable_value tax_amount))
       else Inr None)))"

subsection \<open>Line-item rows\<close>

definition base_value :: "frame \<Rightarrow> row \<Rightarrow> error + real option" where
  "base_value df r =
     bind_err (rd df r ''taxable_value'') (\<lambda>tv. case tv of Some taxable_value \<Rightarrow> Inr (Some taxable_value) | None \<Rightarrow>
     bind_err (rd df r ''rate_per_item_after_discount'') (\<lambda>rp. case rp of None \<Rightarrow> Inr None | Some rate \<Rightarrow>
     bind_err (rd df r ''quantity'') (\<lambda>q. case q of None \<Rightarrow> Inr None | Some quantity \<Rightarrow>
       Inr (Some (rate * quantity)))))"

definition tax_from_individual_amounts :: "frame \<Rightarrow> row \<Rightarrow> error + real list" where
  "tax_from_individual_amounts df r =
     bind_err (rd df r ''sgst_amount'') (\<lambda>s. case s of None \<Rightarrow> Inr [] | Some sgst_amount \<Rightarrow>
     bind_err (rd df r ''cgst_amount'') (\<lambda>c. case c of None \<Rightarrow> Inr [] | Some cgst_amount \<Rightarrow>
     bind_err (rd df r ''igst_amount'') (\<lambda>i. case i of None \<Rightarrow> Inr [] | Some igst_amount \<Rightarrow>
       Inr [sgst_amount + cgst_amount + igst_amount])))"

definition tax_from_individual_rates :: "frame \<Rightarrow> row \<Rightarrow> real \<Rightarrow> error + real list" where
  "tax_from_individual_rates df r base =
     bind_err (rd df r ''sgst_rate'') (\<lambda>s. case s of None \<Rightarrow> Inr [] | Some sgst_rate \<Rightarrow>
     bind_err (rd df r ''cgst_rate'') (\<lambda>c. case c of None \<Rightarrow> Inr [] | Some cgst_rate \<Rightarrow>
     bind_err (rd df r ''igst_rate'') (\<lambda>i. case i of None \<Rightarrow> Inr [] | Some igst_rate \<Rightarrow>
       Inr [base * (sgst_rate + cgst_rate + igst_rate) / 100])))"

definition tax_from_amount :: "frame \<Rightarrow> row \<Rightarrow> error + real list" where
  "tax_from_amount df r =
     bind_err (rd df r ''tax_amount'') (\<lambda>t. case t of None \<Rightarrow> Inr [] | Some tax_amount \<Rightarrow>
       Inr [tax_amount])"

definition tax_from_rate :: "frame \<Rightarrow> row \<Rightarrow> real \<Rightarrow> error + real list" where
  "tax_from_rate df r base =
     bind_err (rd df r ''tax_rate'') (\<lambda>t. case t of None \<Rightarrow> Inr [] | Some tax_rate \<Rightarrow>
       Inr [base * tax_rate / 100])"

definition tax_vars :: "frame \<Rightarrow> row \<Rightarrow> real \<Rightarrow> error + real list" where
  "tax_vars df r base =
     bind_err (tax_from_individual_amounts df r) (\<lambda>a.
     bind_err (tax_from_individual_rates df r base) (\<lambda>b.
     bind_err (tax_from_amount df r) (\<lambda>c.
     bind_err (tax_from_rate df r base) (\<lambda>d.
       Inr (a @ b @ c @ d)))))"

definition tax_disagree :: "real list \<Rightarrow> bool" where
  \<comment> \<open>the loop over \<^verbatim>\<open>range(len(tax_vars)-1)\<close> under \<^verbatim>\<open>len(tax_vars) >= 2\<close>\<close>
  "tax_disagree tvs =
     (length tvs \<ge> 2 \<and>
      list_ex (\<lambda>i. \<not> isclose (tvs ! i) (tvs ! Suc i)) [0..<length tvs - 1])"

definition tax_mismatch :: "nat \<Rightarrow> string" where
  "tax_mismatch idx =
     ''Tax amount mismatch at row '' @ str_nat idx
       @ '': Different tax calculations yield different results''"

definition final_mismatch :: "pandas_lib \<Rightarrow> nat \<Rightarrow> real \<Rightarrow> real \<Rightarrow> real \<Rightarrow> string" where
  "final_mismatch lib idx final_amount base tax_amount =
     ''Final amount mismatch at row '' @ str_nat idx @ '': '' @ fmt lib final_amount
       @ '' != '' @ fmt lib base @ '' + '' @ fmt lib tax_amount"

text \<open>
  \<^verbatim>\<open>next((t for t in tax_vars if not pd.isna(t)), None)\<close>: the estimates are reals,
  none is NaN, so this is the first estimate, if there is one.
\<close>

definition final_check :: "pandas_lib \<Rightarrow> frame \<Rightarrow> nat \<Rightarrow> row \<Rightarrow> real \<Rightarrow> real list \<Rightarrow> error + string option" where
  "final_check lib df idx r base tvs =
     bind_err (rd df r ''final_amount'') (\<lambda>fa. case fa of None \<Rightarrow> Inr None | Some final_amount \<Rightarrow>
       (case tvs of
          [] \<Rightarrow> Inr None
        | tax_amount # _ \<Rightarrow>
            if \<not> isclose final_amount (base + tax_amount)
            then Inr (Some (final_mismatch lib idx final_amount base tax_amount))
            else Inr None))"

definition item_row_check :: "pandas_lib \<Rightarrow> frame \<Rightarrow> nat \<Rightarrow> row \<Rightarrow> error + string option" where
  "item_row_check lib df idx r =
     bind_err (base_value df r) (\<lambda>bv. case bv of None \<Rightarrow> Inr None | Some base \<Rightarrow>
     bind_err (tax_vars df r base) (\<lambda>tvs.
       if tax_disagree tvs then Inr (Some (tax_mismatch idx))
       else final_check lib df idx r base tvs))"

subsection \<open>Summary rows\<close>

text \<open>
  \<^verbatim>\<open>total_tax\<close> is a local variable of \<^verbatim>\<open>check_relations\<close>, assigned inside the
  loop on two of three paths. On the third path it keeps what an earlier row gave it, and
  it is unbound when no row has assigned it yet: reading it then raises
  \<^verbatim>\<open>UnboundLocalError\<close>. The loop therefore carries the variable, \<open>None\<close> for unbound.
\<close>

definition resolve_total_tax :: "frame \<Rightarrow> row \<Rightarrow> real option \<Rightarrow> error + real option" where
  "resolve_total_tax df r total_tax =
     bind_err (rd df r ''total_tax_amount'') (\<lambda>t. case t of Some total_tax_amount \<Rightarrow> Inr (Some total_tax_amount) | None \<Rightarrow>
     bind_err (rd df r ''total_cgst_amount'') (\<lambda>c. case c of None \<Rightarrow> Inr total_tax | Some cgst \<Rightarrow>
     bind_err (rd df r ''total_sgst_amount'') (\<lambda>s. case s of None \<Rightarrow> Inr total_tax | Some sgst \<Rightarrow>
     bind_err (rd df r ''total_igst_amount'') (\<lambda>i. case i of None \<Rightarrow> Inr total_tax | Some igst \<Rightarrow>
       Inr (Some (cgst + sgst + igst))))))"

definition total_mismatch :: "pandas_lib \<Rightarrow> nat \<Rightarrow> real \<Rightarrow> real \<Rightarrow> real \<Rightarrow> string" where
  "total_mismatch lib idx total_invoice_value total_taxable_value total_tax =
     ''Total invoice value mismatch at row '' @ str_nat idx @ '': '' @ fmt lib total_invoice_value
       @ '' != '' @ fmt lib total_taxable_value @ '' + '' @ fmt lib total_tax"

definition total_check :: "pandas_lib \<Rightarrow> frame \<Rightarrow> nat \<Rightarrow> row \<Rightarrow> real option \<Rightarrow> error + string option" where
  "total_check lib df idx r total_tax =
     bind_err (rd df r ''total_taxable_value'') (\<lambda>tv. case tv of None \<Rightarrow> Inr None | Some total_taxable_value \<Rightarrow>
     bind_err (rd df r ''total_invoice_value'') (\<lambda>iv. case iv of None \<Rightarrow> Inr None | Some total_invoice_value \<Rightarrow>
       (case total_tax of
          None \<Rightarrow> Inl (UnboundLocalError ''total_tax'')
        | Some tax \<Rightarrow>
            if \<not> isclose total_invoice_value (total_taxable_value + tax)
            then Inr (Some (total_mismatch lib idx total_invoice_value total_taxable_value tax))
            else Inr None)))"

fun summary_rows :: "pandas_lib \<Rightarrow> frame \<Rightarrow> nat \<Rightarrow> real option \<Rightarrow> row list \<Rightarrow> error + string option" where
  "summary_rows lib df idx total_tax [] = Inr None"
| "summary_rows lib df idx total_tax (r # rs) =
     (case resolve_total_tax df r total_tax of
        Inl e \<Rightarrow> Inl e
      | Inr total_tax' \<Rightarrow>
          (case total_check lib df idx r total_tax' of
             Inl e \<Rightarrow> Inl e
           | Inr (Some m) \<Rightarrow> Inr (Some m)
           | Inr None \<Rightarrow> summary_rows lib df (Suc idx) total_tax' rs))"

subsection \<open>The step\<close>

text \<open>
  The step assigns the coerced columns to the three frames and returns them beside its
  result: a failure message, success, or the exception that escapes.
\<close>

definition relations_result :: "pandas_lib \<Rightarrow> frame \<Rightarrow> frame \<Rightarrow> frame \<Rightarrow> error + bool \<times> string" where
  "relations_result lib invoice_df line_items_df total_summary_df =
     (case iterrows (invoice_row_check lib invoice_df) 0 (rows invoice_df) of
        Inl e \<Rightarrow> Inl e
      | Inr (Some m) \<Rightarrow> Inr (False, m)
      | Inr None \<Rightarrow>
     (case iterrows (item_row_check lib line_items_df) 0 (rows line_items_df) of
        Inl e \<Rightarrow> Inl e
      | Inr (Some m) \<Rightarrow> Inr (False, m)
      | Inr None \<Rightarrow>
     (case summary_rows lib total_summary_df 0 None (rows total_summary_df) of
        Inl e \<Rightarrow> Inl e
      | Inr (Some m) \<Rightarrow> Inr (False, m)
      | Inr None \<Rightarrow> Inr (True, []))))"

definition check_relations ::
  "pandas_lib \<Rightarrow> frame \<Rightarrow> frame \<Rightarrow> frame \<Rightarrow> (error + bool \<times> string) \<times> frame \<times> frame \<times> frame" where
  "check_relations lib invoice_df line_items_df total_summary_df =
     (let invoice_df' = coerce_cols lib relation_cols_invoice invoice_df;
          line_items_df' = coerce_cols lib relation_cols_items line_items_df;
          total_summary_df' = coerce_cols lib relation_cols_summary total_summary_df
      in (relations_result lib invoice_df' line_items_df' total_summary_df',
          invoice_df', line_items_df', total_summary_df'))"

section \<open>The engine\<close>

text \<open>
  The caller's three frames are objects the engine receives by reference. The heap maps
  addresses to frames; \<open>next_free\<close> is the first address not yet given out.
  \<^verbatim>\<open>df.replace\<close> returns a new frame, and \<^verbatim>\<open>invoice_df = standardize_nulls(invoice_df)\<close>
  rebinds the local name to it; the column assignments of Steps 2 and 3 write to the
  object the local name is bound to.
\<close>

record heap =
  objs :: "nat \<Rightarrow> frame"
  next_free :: nat

definition alloc :: "heap \<Rightarrow> frame \<Rightarrow> nat \<times> heap" where
  "alloc h df =
     (next_free h, h\<lparr>objs := (objs h)(next_free h := df), next_free := Suc (next_free h)\<rparr>)"

definition store :: "heap \<Rightarrow> nat \<Rightarrow> frame \<Rightarrow> heap" where
  "store h a df = h\<lparr>objs := (objs h)(a := df)\<rparr>"

type_synonym verdict = "bool \<times> string \<times> string"

text \<open>
  The three steps, run on the frames the local names are bound to: each step is a gate for
  the next, and an exception that escapes a step ends the call.
\<close>

definition execute_steps ::
  "pandas_lib \<Rightarrow> heap \<Rightarrow> nat \<Rightarrow> nat \<Rightarrow> nat \<Rightarrow> (error + verdict) \<times> heap" where
  "execute_steps lib h invoice_df line_items_df total_summary_df =
     (case check_missing_values (objs h invoice_df) (objs h line_items_df)
             (objs h total_summary_df) of
        Inl e \<Rightarrow> (Inl e, h)
      | Inr (passed_step1, error_msg1) \<Rightarrow>
          if \<not> passed_step1 then (Inr (False, ''Step 1: Missing Values'', error_msg1), h)
          else
            (let ((passed_step2, error_msg2), dated) =
                   check_data_types lib (objs h invoice_df) (objs h line_items_df)
                     (objs h total_summary_df);
                 h' = store h invoice_df dated
             in if \<not> passed_step2 then (Inr (False, ''Step 2: Data Types'', error_msg2), h')
                else
                  (let (res, invoice_df', line_items_df', total_summary_df') =
                         check_relations lib (objs h' invoice_df) (objs h' line_items_df)
                           (objs h' total_summary_df);
                       h'' = store (store (store h' invoice_df invoice_df')
                               line_items_df line_items_df') total_summary_df total_summary_df'
                   in case res of
                        Inl e \<Rightarrow> (Inl e, h'')
                      | Inr (passed_step3, error_msg3) \<Rightarrow>
                          if \<not> passed_step3
                          then (Inr (False, ''Step 3: Relations'', error_msg3), h'')
                          else (Inr (True, ''All Steps'', ''Validation successful''), h''))))"

definition validate_invoice_data ::
  "pandas_lib \<Rightarrow> heap \<Rightarrow> nat \<Rightarrow> nat \<Rightarrow> nat \<Rightarrow> (error + verdict) \<times> heap" where
  "validate_invoice_data lib h invoice_arg line_items_arg total_summary_arg =
     (let (invoice_df, h1) = alloc h (standardize_nulls (objs h invoice_arg));
          (line_items_df, h2) = alloc h1 (standardize_nulls (objs h1 line_items_arg));
          (total_summary_df, h3) = alloc h2 (standardize_nulls (objs h2 total_summary_arg))
      in execute_steps lib h3 invoice_df line_items_df total_summary_df)"

section \<open>Notions used in the statements\<close>

text \<open>
  The number Step 3 finds in a cell: what \<^verbatim>\<open>pd.to_numeric(errors='coerce')\<close> leaves of
  it, \<open>None\<close> when that is null. A field is present for Step 3 when this is a number.
\<close>

definition cell_value :: "pandas_lib \<Rightarrow> row \<Rightarrow> string \<Rightarrow> real option" where
  "cell_value lib r c = float_of (to_numeric_coerce lib (r c))"

text \<open>
  A header row breaks the invoice relation when its invoice value, taxable value and tax
  amount are all present and the invoice value is not close to the sum of the other two.
\<close>

definition invoice_relation_fails :: "pandas_lib \<Rightarrow> row \<Rightarrow> bool" where
  "invoice_relation_fails lib r =
     (case cell_value lib r ''invoice_value'' of None \<Rightarrow> False | Some invoice_value \<Rightarrow>
      case cell_value lib r ''taxable_value'' of None \<Rightarrow> False | Some taxable_value \<Rightarrow>
      case cell_value lib r ''tax_amount'' of None \<Rightarrow> False | Some tax_amount \<Rightarrow>
        \<not> isclose invoice_value (taxable_value + tax_amount))"

text \<open>
  The base value and the tax estimates of a line-item row, as functions of the numbers
  Step 3 finds in the row: each estimate is there only when all its inputs are, and the
  order is amounts, rates, tax amount, tax rate.
\<close>

definition row_base :: "pandas_lib \<Rightarrow> row \<Rightarrow> real option" where
  "row_base lib r =
     (case cell_value lib r ''taxable_value'' of
        Some taxable_value \<Rightarrow> Some taxable_value
      | None \<Rightarrow>
          (case (cell_value lib r ''rate_per_item_after_discount'', cell_value lib r ''quantity'') of
             (Some rate, Some quantity) \<Rightarrow> Some (rate * quantity)
           | _ \<Rightarrow> None))"

definition estimates :: "pandas_lib \<Rightarrow> row \<Rightarrow> real \<Rightarrow> real list" where
  "estimates lib r base =
     (case (cell_value lib r ''sgst_amount'', cell_value lib r ''cgst_amount'',
            cell_value lib r ''igst_amount'') of
        (Some s, Some c, Some i) \<Rightarrow> [s + c + i] | _ \<Rightarrow> [])
     @ (case (cell_value lib r ''sgst_rate'', cell_value lib r ''cgst_rate'',
              cell_value lib r ''igst_rate'') of
        (Some s, Some c, Some i) \<Rightarrow> [base * (s + c + i) / 100] | _ \<Rightarrow> [])
     @ (case cell_value lib r ''tax_amount'' of Some t \<Rightarrow> [t] | None \<Rightarrow> [])
     @ (case cell_value lib r ''tax_rate'' of Some t \<Rightarrow> [base * t / 100] | None \<Rightarrow> [])"

text \<open>Some two successive estimates, in the order of the list, are not close.\<close>

definition successive_far :: "real list \<Rightarrow> bool" where
  "successive_far es = list_ex (\<lambda>k. \<not> isclose (es ! k) (es ! Suc k)) [0..<length es - 1]"

text \<open>
  The verdict as a function of the three normalised frames: what
  \<open>validate_invoice_data\<close> returns when the caller's frames are objects of the heap.
\<close>

definition verdict_of :: "pandas_lib \<Rightarrow> frame \<Rightarrow> frame \<Rightarrow> frame \<Rightarrow> error + verdict" where
  "verdict_of lib invoice_df line_items_df total_summary_df =
     (case check_missing_values invoice_df line_items_df total_summary_df of
        Inl e \<Rightarrow> Inl e
      | Inr (passed_step1, error_msg1) \<Rightarrow>
          if \<not> passed_step1 then Inr (False, ''Step 1: Missing Values'', error_msg1)
          else
            (case check_data_types lib invoice_df line_items_df total_summary_df of
               ((passed_step2, error_msg2), dated) \<Rightarrow>
                 if \<not> passed_step2 then Inr (False, ''Step 2: Data Types'', error_msg2)
                 else
                   (case fst (check_relations lib dated line_items_df total_summary_df) of
                      Inl e \<Rightarrow> Inl e
                    | Inr (passed_step3, error_msg3) \<Rightarrow>
                        if \<not> passed_step3 then Inr (False, ''Step 3: Relations'', error_msg3)
                        else Inr (True, ''All Steps'', ''Validation successful''))))"

section \<open>Example inputs\<close>

text \<open>
  The example library parses no string as a number, takes every string as a date, and
  prints a number as the whole number below it.
\<close>

definition example_lib :: pandas_lib where
  "example_lib =
     \<lparr>str_to_num = (\<lambda>s. None),
      to_datetime1 = (\<lambda>c. case c of Str s \<Rightarrow> Some 0 | _ \<Rightarrow> None),
      fmt = (\<lambda>x. str_nat (nat \<lfloor>x\<rfloor>)),
      numeric_error = (\<lambda>cs. ''Unable to parse string''),
      datetime_error = (\<lambda>cs. ''time data does not match format'')\<rparr>"

text \<open>
  A header row with every required field, and frames with the columns of the schema. A
  line-item or summary row is given by the numbers it holds; every other cell is null.
\<close>

definition header_row :: "real \<Rightarrow> real \<Rightarrow> real \<Rightarrow> row" where
  "header_row invoice_value taxable_value tax_amount =
     (\<lambda>c. NaN)
       (''invoice_number'' := Str ''INV-001'',
        ''invoice_date'' := Str ''05-Jan-24'',
        ''place_of_supply'' := Num 29,
        ''place_of_origin'' := Num 29,
        ''receiver_name'' := Str ''Acme Traders'',
        ''gstin_supplier'' := Str ''29ABCDE1234F1Z5'',
        ''taxable_value'' := Num taxable_value,
        ''invoice_value'' := Num invoice_value,
        ''tax_amount'' := Num tax_amount)"

definition header_frame :: "row list \<Rightarrow> frame" where
  "header_frame rs = \<lparr>columns = invoice_reads, rows = rs\<rparr>"

definition items_frame :: "row list \<Rightarrow> frame" where
  "items_frame rs = \<lparr>columns = numeric_cols_items, rows = rs\<rparr>"

definition summary_frame :: "row list \<Rightarrow> frame" where
  "summary_frame rs = \<lparr>columns = numeric_cols_summary, rows = rs\<rparr>"

definition item_row :: "(string \<times> real) list \<Rightarrow> row" where
  "item_row kvs = (\<lambda>c. case map_of kvs c of Some x \<Rightarrow> Num x | None \<Rightarrow> NaN)"

definition summary_row :: "(string \<times> real) list \<Rightarrow> row" where
  "summary_row kvs = (\<lambda>c. case map_of kvs c of Some x \<Rightarrow> Num x | None \<Rightarrow> NaN)"

text \<open>A heap holding the caller's three frames at the addresses 0, 1 and 2.\<close>

definition example_heap :: "frame \<Rightarrow> frame \<Rightarrow> frame \<Rightarrow> heap" where
  "example_heap invoice_df line_items_df total_summary_df =
     \<lparr>objs = (\<lambda>a. \<lparr>columns = [], rows = []\<rparr>)
        (0 := invoice_df, 1 := line_items_df, 2 := total_summary_df),
      next_free = 3\<rparr>"

text \<open>
  An invoice under integrated tax only: 5000 taxable, 900 IGST, 5900 in total, with one
  line item.
\<close>

definition igst_header :: frame where
  "igst_header = header_frame [header_row 5900 5000 900]"

definition igst_items :: frame where
  "igst_items = items_frame (map item_row
     [[(''taxable_value'', 5000), (''igst_rate'', 18), (''igst_amount'', 900),
       (''final_amount'', 5900)]])"

definition igst_summary :: frame where
  "igst_summary = summary_frame (map summary_row
     [[(''total_taxable_value'', 5000), (''total_igst_amount'', 900),
       (''total_invoice_value'', 5900)]])"

text \<open>
  A consistent invoice: 100 taxable, 9 percent CGST and SGST, 118 in total, with one line
  item.
\<close>

definition good_items :: frame where
  "good_items = items_frame (map item_row
     [[(''taxable_value'', 100), (''sgst_rate'', 9), (''cgst_rate'', 9), (''igst_rate'', 0),
       (''tax_amount'', 18), (''final_amount'', 118)]])"

definition good_summary :: frame where
  "good_summary = summary_frame (map summary_row
     [[(''total_taxable_value'', 100), (''total_cgst_amount'', 9), (''total_sgst_amount'', 9),
       (''total_igst_amount'', 0), (''total_invoice_value'', 118)]])"

section \<open>Auxiliary lemmas\<close>

lemma bind_err_Inr: "bind_err (Inr x) f = f x"
  by (simp add: bind_err_def)

lemma bind_err_Inl: "bind_err (Inl e) f = Inl e"
  by (simp add: bind_err_def)

lemma rd_present: "c \<in> set (columns df) \<Longrightarrow> rd df r c = Inr (float_of (r c))"
  by (simp add: rd_def)

lemma iterrows_pass:
  "(\<And>i. i < length rs \<Longrightarrow> check (k + i) (rs ! i) = Inr None) \<Longrightarrow> iterrows check k rs = Inr None"
proof (induction rs arbitrary: k)
  case Nil
  show ?case by simp
next
  case (Cons r rs)
  have "check k r = Inr None" using Cons.prems [of 0] by simp
  moreover have "iterrows check (Suc k) rs = Inr None"
  proof (rule Cons.IH)
    fix i assume "i < length rs"
    then show "check (Suc k + i) (rs ! i) = Inr None"
      using Cons.prems [of "Suc i"] by simp
  qed
  ultimately show ?case by simp
qed

lemma iterrows_first:
  "i < length rs \<Longrightarrow> (\<And>j. j < i \<Longrightarrow> check (k + j) (rs ! j) = Inr None) \<Longrightarrow>
   check (k + i) (rs ! i) = res \<Longrightarrow> res \<noteq> Inr None \<Longrightarrow> iterrows check k rs = res"
proof (induction rs arbitrary: k i)
  case Nil
  then show ?case by simp
next
  case (Cons r rs)
  show ?case
  proof (cases i)
    case 0
    with Cons.prems(3,4) show ?thesis
      by (auto split: sum.splits option.splits)
  next
    case (Suc i')
    have h: "check k r = Inr None" using Cons.prems(2) [of 0] Suc by simp
    have "iterrows check (Suc k) rs = res"
    proof (rule Cons.IH [of i'])
      show "i' < length rs" using Cons.prems(1) Suc by simp
      show "check (Suc k + i') (rs ! i') = res" using Cons.prems(3) Suc by simp
      show "res \<noteq> Inr None" by (rule Cons.prems(4))
      fix j assume "j < i'"
      then show "check (Suc k + j) (rs ! j) = Inr None"
        using Cons.prems(2) [of "Suc j"] Suc by simp
    qed
    with h show ?thesis by simp
  qed
qed

lemma iterrows_stops:
  "iterrows check k rs = res \<Longrightarrow> res \<noteq> Inr None \<Longrightarrow>
   \<exists>i < length rs. check (k + i) (rs ! i) = res \<and> (\<forall>j < i. check (k + j) (rs ! j) = Inr None)"
proof (induction rs arbitrary: k)
  case Nil
  then show ?case by simp
next
  case (Cons r rs)
  show ?case
  proof (cases "check k r = Inr None")
    case True
    with Cons.prems have "iterrows check (Suc k) rs = res" by simp
    from Cons.IH [OF this Cons.prems(2)] obtain i where
      i: "i < length rs" "check (Suc k + i) (rs ! i) = res"
         "\<forall>j < i. check (Suc k + j) (rs ! j) = Inr None" by blast
    have "\<forall>j < Suc i. check (k + j) ((r # rs) ! j) = Inr None"
    proof (intro allI impI)
      fix j assume "j < Suc i"
      then show "check (k + j) ((r # rs) ! j) = Inr None"
        using True i(3) by (cases j) auto
    qed
    with i(1,2) show ?thesis
      by (intro exI [of _ "Suc i"]) simp
  next
    case False
    with Cons.prems have "check k r = res"
      by (auto split: sum.splits option.splits)
    then show ?thesis by (intro exI [of _ 0]) simp
  qed
qed

lemma to_numeric_coerce_idem:
  "to_numeric_coerce lib (to_numeric_coerce lib c) = to_numeric_coerce lib c"
  by (cases c) (auto split: option.splits)

lemma mapcol_columns: "columns (mapcol df c f) = columns df"
  by (simp add: mapcol_def)

lemma coerce_cols_columns: "columns (coerce_cols lib cols df) = columns df"
  unfolding coerce_cols_def
  by (induction cols arbitrary: df) (simp_all add: mapcol_columns)

lemma coerce_cols_rows:
  "rows (coerce_cols lib cols df) =
     map (\<lambda>r c. if c \<in> set cols \<and> c \<in> set (columns df)
                then to_numeric_coerce lib (r c) else r c) (rows df)"
  unfolding coerce_cols_def
proof (induction cols arbitrary: df)
  case Nil
  show ?case by simp
next
  case (Cons col cols)
  let ?step = "\<lambda>col d. if col \<in> set (columns d) then mapcol d col (to_numeric_coerce lib) else d"
  have cols_step: "columns (?step col df) = columns df"
    by (simp add: mapcol_columns)
  have "rows (fold ?step (col # cols) df) = rows (fold ?step cols (?step col df))"
    by simp
  also have "\<dots> = map (\<lambda>r c. if c \<in> set cols \<and> c \<in> set (columns df)
                then to_numeric_coerce lib (r c) else r c) (rows (?step col df))"
    using Cons.IH [of "?step col df"] cols_step by simp
  also have "\<dots> = map (\<lambda>r c. if c \<in> set (col # cols) \<and> c \<in> set (columns df)
                then to_numeric_coerce lib (r c) else r c) (rows df)"
    by (auto simp: mapcol_def to_numeric_coerce_idem fun_eq_iff)
  finally show ?case .
qed

lemma coerce_cols_length: "length (rows (coerce_cols lib cols df)) = length (rows df)"
  by (simp add: coerce_cols_rows)

lemma coerce_cols_cell:
  "i < length (rows df) \<Longrightarrow> c \<in> set cols \<Longrightarrow> c \<in> set (columns df) \<Longrightarrow>
   float_of ((rows (coerce_cols lib cols df) ! i) c) = cell_value lib (rows df ! i) c"
  by (simp add: coerce_cols_rows cell_value_def)

lemma coerce_cols_kind:
  "i < length (rows df) \<Longrightarrow> c \<in> set cols \<Longrightarrow> c \<in> set (columns df) \<Longrightarrow>
   (rows (coerce_cols lib cols df) ! i) c = NaN \<or> (\<exists>x. (rows (coerce_cols lib cols df) ! i) c = Num x)"
  by (cases "(rows df ! i) c") (auto simp: coerce_cols_rows split: option.splits)

lemma invoice_row_check_eq:
  assumes "set relation_cols_invoice \<subseteq> set (columns df)"
  shows "invoice_row_check lib df idx r =
     Inr (case float_of (r ''invoice_value'') of None \<Rightarrow> None | Some a \<Rightarrow>
          case float_of (r ''taxable_value'') of None \<Rightarrow> None | Some b \<Rightarrow>
          case float_of (r ''tax_amount'') of None \<Rightarrow> None | Some c \<Rightarrow>
            if \<not> isclose a (b + c) then Some (invoice_mismatch lib idx a b c) else None)"
  using assms
  by (simp add: invoice_row_check_def relation_cols_invoice_def rd_def bind_err_def
      split: option.splits)

lemma invoice_row_check_coerced:
  assumes "set relation_cols_invoice \<subseteq> set (columns df)" and "i < length (rows df)"
  shows "invoice_row_check lib (coerce_cols lib relation_cols_invoice df) idx
           (rows (coerce_cols lib relation_cols_invoice df) ! i) =
     Inr (case cell_value lib (rows df ! i) ''invoice_value'' of None \<Rightarrow> None | Some a \<Rightarrow>
          case cell_value lib (rows df ! i) ''taxable_value'' of None \<Rightarrow> None | Some b \<Rightarrow>
          case cell_value lib (rows df ! i) ''tax_amount'' of None \<Rightarrow> None | Some c \<Rightarrow>
            if \<not> isclose a (b + c) then Some (invoice_mismatch lib idx a b c) else None)"
proof -
  have c: "set relation_cols_invoice \<subseteq> set (columns (coerce_cols lib relation_cols_invoice df))"
    using assms(1) by (simp add: coerce_cols_columns)
  have v: "\<And>c. c \<in> set relation_cols_invoice \<Longrightarrow>
      float_of ((rows (coerce_cols lib relation_cols_invoice df) ! i) c) = cell_value lib (rows df ! i) c"
    using assms by (intro coerce_cols_cell) auto
  have "float_of ((rows (coerce_cols lib relation_cols_invoice df) ! i) ''invoice_value'')
          = cell_value lib (rows df ! i) ''invoice_value''"
       "float_of ((rows (coerce_cols lib relation_cols_invoice df) ! i) ''taxable_value'')
          = cell_value lib (rows df ! i) ''taxable_value''"
       "float_of ((rows (coerce_cols lib relation_cols_invoice df) ! i) ''tax_amount'')
          = cell_value lib (rows df ! i) ''tax_amount''"
    by (rule v, simp add: relation_cols_invoice_def)+
  then show ?thesis
    by (simp add: invoice_row_check_eq [OF c] cong: option.case_cong)
qed

lemma invoice_row_check_fails_iff:
  assumes "set relation_cols_invoice \<subseteq> set (columns df)" and "i < length (rows df)"
  shows "invoice_row_check lib (coerce_cols lib relation_cols_invoice df) idx
           (rows (coerce_cols lib relation_cols_invoice df) ! i) \<noteq> Inr None
         \<longleftrightarrow> invoice_relation_fails lib (rows df ! i)"
  by (simp add: invoice_row_check_coerced [OF assms] invoice_relation_fails_def
      split: option.splits)

lemma item_row_check_msg:
  "item_row_check lib df idx r = Inr (Some m) \<Longrightarrow>
   m = tax_mismatch idx \<or> (\<exists>a b c. m = final_mismatch lib idx a b c)"
  by (auto simp: item_row_check_def final_check_def bind_err_def
      split: sum.splits option.splits list.splits if_splits)

lemma total_check_msg:
  "total_check lib df idx r tt = Inr (Some m) \<Longrightarrow> \<exists>a b c. m = total_mismatch lib idx a b c"
  by (auto simp: total_check_def bind_err_def split: sum.splits option.splits if_splits)

lemma summary_rows_msg:
  "summary_rows lib df idx tt rs = Inr (Some m) \<Longrightarrow> \<exists>i a b c. m = total_mismatch lib i a b c"
proof (induction rs arbitrary: idx tt)
  case Nil
  then show ?case by simp
next
  case (Cons r rs)
  then show ?case
    by (fastforce split: sum.splits option.splits dest: total_check_msg)
qed

lemma items_loop_msg:
  assumes "iterrows (item_row_check lib df) k rs = Inr (Some m)"
  shows "\<exists>i. m = tax_mismatch i \<or> (\<exists>a b c. m = final_mismatch lib i a b c)"
proof -
  from iterrows_stops [OF assms] obtain i where
    "item_row_check lib df (k + i) (rs ! i) = Inr (Some m)" by auto
  from item_row_check_msg [OF this] show ?thesis by blast
qed

lemma invoice_loop_msg:
  assumes "iterrows (invoice_row_check lib df) k rs = Inr (Some m)"
  shows "\<exists>i a b c. m = invoice_mismatch lib i a b c"
proof -
  from iterrows_stops [OF assms] obtain i where
    "invoice_row_check lib df (k + i) (rs ! i) = Inr (Some m)" by auto
  then show ?thesis
    by (auto simp: invoice_row_check_def bind_err_def split: sum.splits option.splits if_splits)
qed

lemma relations_after_invoice:
  assumes "iterrows (invoice_row_check lib df) 0 (rows df) = Inr None"
  shows "relations_result lib df items summ \<noteq> Inr (False, ''Invoice value mismatch at row '' @ m)"
proof
  assume eq: "relations_result lib df items summ = Inr (False, ''Invoice value mismatch at row '' @ m)"
  show False
  proof (cases "iterrows (item_row_check lib items) 0 (rows items)")
    case (Inl e)
    with eq assms show False by (simp add: relations_result_def)
  next
    case (Inr x)
    show False
    proof (cases x)
      case (Some m')
      from items_loop_msg [OF Inr [unfolded Some]] obtain i where
        "m' = tax_mismatch i \<or> (\<exists>a b c. m' = final_mismatch lib i a b c)" by blast
      with eq assms Inr Some show False
        by (auto simp: relations_result_def tax_mismatch_def final_mismatch_def)
    next
      case None
      show False
      proof (cases "summary_rows lib summ 0 None (rows summ)")
        case (Inl e)
        with eq assms Inr None show False by (simp add: relations_result_def)
      next
        case inr: (Inr y)
        show False
        proof (cases y)
          case n: None
          with eq assms Inr None inr show False by (simp add: relations_result_def)
        next
          case s: (Some m')
          from summary_rows_msg [OF inr [unfolded s]] obtain i a b c where
            "m' = total_mismatch lib i a b c" by blast
          with eq assms Inr None inr s show False
            by (auto simp: relations_result_def total_mismatch_def)
        qed
      qed
    qed
  qed
qed

section \<open>Step 3 on the invoice rows\<close>

lemma invoice_relation_fails_iff:
  "invoice_relation_fails lib r \<longleftrightarrow>
     (\<exists>a b c. cell_value lib r ''invoice_value'' = Some a \<and>
              cell_value lib r ''taxable_value'' = Some b \<and>
              cell_value lib r ''tax_amount'' = Some c \<and> \<not> isclose a (b + c))"
  by (auto simp: invoice_relation_fails_def split: option.splits)

lemma invoice_loop_first:
  assumes cols: "set relation_cols_invoice \<subseteq> set (columns df)"
    and i: "i < length (rows df)"
    and before: "\<And>j. j < i \<Longrightarrow> \<not> invoice_relation_fails lib (rows df ! j)"
    and vals: "cell_value lib (rows df ! i) ''invoice_value'' = Some a"
      "cell_value lib (rows df ! i) ''taxable_value'' = Some b"
      "cell_value lib (rows df ! i) ''tax_amount'' = Some c"
    and far: "\<not> isclose a (b + c)"
  shows "iterrows (invoice_row_check lib (coerce_cols lib relation_cols_invoice df)) 0
           (rows (coerce_cols lib relation_cols_invoice df))
         = Inr (Some (invoice_mismatch lib i a b c))"
proof (rule iterrows_first [where i = i])
  show "i < length (rows (coerce_cols lib relation_cols_invoice df))"
    using i by (simp add: coerce_cols_length)
  show "invoice_row_check lib (coerce_cols lib relation_cols_invoice df) (0 + i)
          (rows (coerce_cols lib relation_cols_invoice df) ! i)
        = Inr (Some (invoice_mismatch lib i a b c))"
    using vals far by (simp add: invoice_row_check_coerced [OF cols i])
  show "Inr (Some (invoice_mismatch lib i a b c)) \<noteq> (Inr None :: error + string option)"
    by simp
  fix j assume j: "j < i"
  then have jl: "j < length (rows df)" using i by simp
  show "invoice_row_check lib (coerce_cols lib relation_cols_invoice df) (0 + j)
          (rows (coerce_cols lib relation_cols_invoice df) ! j) = Inr None"
    using before [OF j] invoice_row_check_fails_iff [OF cols jl, of lib "0 + j"] by blast
qed

lemma invoice_loop_pass:
  assumes cols: "set relation_cols_invoice \<subseteq> set (columns df)"
    and ok: "\<And>r. r \<in> set (rows df) \<Longrightarrow> \<not> invoice_relation_fails lib r"
  shows "iterrows (invoice_row_check lib (coerce_cols lib relation_cols_invoice df)) 0
           (rows (coerce_cols lib relation_cols_invoice df)) = Inr None"
proof (rule iterrows_pass)
  fix i assume "i < length (rows (coerce_cols lib relation_cols_invoice df))"
  then have i: "i < length (rows df)" by (simp add: coerce_cols_length)
  then have "\<not> invoice_relation_fails lib (rows df ! i)" by (intro ok) simp
  then show "invoice_row_check lib (coerce_cols lib relation_cols_invoice df) (0 + i)
          (rows (coerce_cols lib relation_cols_invoice df) ! i) = Inr None"
    using invoice_row_check_fails_iff [OF cols i, of lib "0 + i"] by blast
qed

lemma invoice_loop_fails:
  assumes cols: "set relation_cols_invoice \<subseteq> set (columns df)"
    and bad: "r \<in> set (rows df)" "invoice_relation_fails lib r"
  shows "\<exists>i a b c. iterrows (invoice_row_check lib (coerce_cols lib relation_cols_invoice df)) 0
           (rows (coerce_cols lib relation_cols_invoice df))
         = Inr (Some (invoice_mismatch lib i a b c))"
proof -
  define P where "P i \<longleftrightarrow> i < length (rows df) \<and> invoice_relation_fails lib (rows df ! i)" for i
  from bad obtain k where "P k" unfolding P_def by (auto simp: in_set_conv_nth)
  define i where "i = (LEAST i. P i)"
  have Pi: "P i" unfolding i_def using \<open>P k\<close> by (rule LeastI)
  have least: "\<And>j. j < i \<Longrightarrow> \<not> P j" unfolding i_def by (rule not_less_Least)
  from Pi obtain a b c where
    v: "cell_value lib (rows df ! i) ''invoice_value'' = Some a"
       "cell_value lib (rows df ! i) ''taxable_value'' = Some b"
       "cell_value lib (rows df ! i) ''tax_amount'' = Some c" "\<not> isclose a (b + c)"
    unfolding P_def invoice_relation_fails_iff by blast
  have il: "i < length (rows df)" using Pi by (simp add: P_def)
  have "\<And>j. j < i \<Longrightarrow> \<not> invoice_relation_fails lib (rows df ! j)"
    using least il by (auto simp: P_def)
  from invoice_loop_first [OF cols il this v] show ?thesis by blast
qed

text \<open>
  C7. With the three columns in the invoice frame, Step 3 fails on the first header row
  whose invoice value, taxable value and tax amount are all present and whose invoice value
  is not close to taxable value plus tax amount, and the message carries the row index and
  the three values; there is an invoice-value mismatch exactly when some header row is such
  a row. With 118, 100 and 18 the row passes; with 120, 100 and 18 the message reads
  \<open>Invoice value mismatch at row 0: 120 != 100 + 18\<close>.
\<close>

theorem header_relation:
  assumes cols: "set relation_cols_invoice \<subseteq> set (columns invoice_df)"
  shows
    "(\<forall>i a b c.
        i < length (rows invoice_df) \<and>
        (\<forall>j < i. \<not> invoice_relation_fails lib (rows invoice_df ! j)) \<and>
        cell_value lib (rows invoice_df ! i) ''invoice_value'' = Some a \<and>
        cell_value lib (rows invoice_df ! i) ''taxable_value'' = Some b \<and>
        cell_value lib (rows invoice_df ! i) ''tax_amount'' = Some c \<and>
        \<not> isclose a (b + c)
        \<longrightarrow> fst (check_relations lib invoice_df line_items_df total_summary_df) =
              Inr (False, ''Invoice value mismatch at row '' @ str_nat i @ '': '' @ fmt lib a
                     @ '' != '' @ fmt lib b @ '' + '' @ fmt lib c)) \<and>
     ((\<exists>m. fst (check_relations lib invoice_df line_items_df total_summary_df) =
             Inr (False, ''Invoice value mismatch at row '' @ m))
        \<longleftrightarrow> (\<exists>r \<in> set (rows invoice_df). invoice_relation_fails lib r)) \<and>
     (\<forall>r. invoice_relation_fails lib r \<longleftrightarrow>
        (\<exists>a b c. cell_value lib r ''invoice_value'' = Some a \<and>
                 cell_value lib r ''taxable_value'' = Some b \<and>
                 cell_value lib r ''tax_amount'' = Some c \<and> \<not> isclose a (b + c)))"
proof (intro conjI allI impI)
  fix i a b c
  assume h: "i < length (rows invoice_df) \<and>
        (\<forall>j < i. \<not> invoice_relation_fails lib (rows invoice_df ! j)) \<and>
        cell_value lib (rows invoice_df ! i) ''invoice_value'' = Some a \<and>
        cell_value lib (rows invoice_df ! i) ''taxable_value'' = Some b \<and>
        cell_value lib (rows invoice_df ! i) ''tax_amount'' = Some c \<and>
        \<not> isclose a (b + c)"
  have "iterrows (invoice_row_check lib (coerce_cols lib relation_cols_invoice invoice_df)) 0
           (rows (coerce_cols lib relation_cols_invoice invoice_df))
         = Inr (Some (invoice_mismatch lib i a b c))"
    using h by (intro invoice_loop_first [OF cols]) auto
  then show "fst (check_relations lib invoice_df line_items_df total_summary_df) =
              Inr (False, ''Invoice value mismatch at row '' @ str_nat i @ '': '' @ fmt lib a
                     @ '' != '' @ fmt lib b @ '' + '' @ fmt lib c)"
    by (simp add: check_relations_def relations_result_def Let_def invoice_mismatch_def)
next
  show "(\<exists>m. fst (check_relations lib invoice_df line_items_df total_summary_df) =
             Inr (False, ''Invoice value mismatch at row '' @ m))
        \<longleftrightarrow> (\<exists>r \<in> set (rows invoice_df). invoice_relation_fails lib r)"
  proof
    assume "\<exists>m. fst (check_relations lib invoice_df line_items_df total_summary_df) =
             Inr (False, ''Invoice value mismatch at row '' @ m)"
    then obtain m where m: "relations_result lib (coerce_cols lib relation_cols_invoice invoice_df)
        (coerce_cols lib relation_cols_items line_items_df)
        (coerce_cols lib relation_cols_summary total_summary_df)
        = Inr (False, ''Invoice value mismatch at row '' @ m)"
      by (auto simp: check_relations_def Let_def)
    show "\<exists>r \<in> set (rows invoice_df). invoice_relation_fails lib r"
    proof (rule ccontr)
      assume "\<not> (\<exists>r \<in> set (rows invoice_df). invoice_relation_fails lib r)"
      then have "iterrows (invoice_row_check lib (coerce_cols lib relation_cols_invoice invoice_df)) 0
           (rows (coerce_cols lib relation_cols_invoice invoice_df)) = Inr None"
        by (intro invoice_loop_pass [OF cols]) blast
      from relations_after_invoice [OF this] m show False by blast
    qed
  next
    assume "\<exists>r \<in> set (rows invoice_df). invoice_relation_fails lib r"
    then obtain r where "r \<in> set (rows invoice_df)" "invoice_relation_fails lib r" by blast
    from invoice_loop_fails [OF cols this] obtain i a b c where
      "iterrows (invoice_row_check lib (coerce_cols lib relation_cols_invoice invoice_df)) 0
           (rows (coerce_cols lib relation_cols_invoice invoice_df))
         = Inr (Some (invoice_mismatch lib i a b c))" by blast
    then show "\<exists>m. fst (check_relations lib invoice_df line_items_df total_summary_df) =
             Inr (False, ''Invoice value mismatch at row '' @ m)"
      by (simp add: check_relations_def relations_result_def Let_def invoice_mismatch_def)
  qed
next
  fix r
  show "invoice_relation_fails lib r \<longleftrightarrow>
        (\<exists>a b c. cell_value lib r ''invoice_value'' = Some a \<and>
                 cell_value lib r ''taxable_value'' = Some b \<and>
                 cell_value lib r ''tax_amount'' = Some c \<and> \<not> isclose a (b + c))"
    by (rule invoice_relation_fails_iff)
qed

lemma isclose_118: "isclose 118 (100 + 18)"
  by (simp add: isclose_def atol_def rtol_def)

lemma not_isclose_120: "\<not> isclose 120 (100 + 18)"
  by (simp add: isclose_def atol_def rtol_def)

lemma str_nat_digit: "n < 10 \<Longrightarrow> str_nat n = [digit n]"
  by (simp add: str_nat.simps)

lemma fmt_example: "fmt example_lib (numeral k) = str_nat (numeral k)"
  by (simp add: example_lib_def)

lemma str_nat_examples:
  "str_nat 0 = ''0''" "str_nat 18 = ''18''" "str_nat 100 = ''100''" "str_nat 120 = ''120''"
  by (simp_all add: str_nat.simps digit_def)

theorem header_relation_witness:
  "fst (check_relations example_lib (header_frame [header_row 120 100 18]) (items_frame [])
          (summary_frame []))
     = Inr (False, ''Invoice value mismatch at row 0: 120 != 100 + 18'') \<and>
   \<not> (\<exists>m. fst (check_relations example_lib (header_frame [header_row 118 100 18])
               (items_frame []) (summary_frame []))
            = Inr (False, ''Invoice value mismatch at row '' @ m))"
proof -
  have c: "set relation_cols_invoice \<subseteq> set (columns (header_frame rs))" for rs
    by (simp add: relation_cols_invoice_def header_frame_def invoice_reads_def)
  have v: "cell_value example_lib (header_row x y z) ''invoice_value'' = Some x"
     "cell_value example_lib (header_row x y z) ''taxable_value'' = Some y"
     "cell_value example_lib (header_row x y z) ''tax_amount'' = Some z" for x y z
    by (simp_all add: cell_value_def header_row_def)
  have ok: "\<not> invoice_relation_fails example_lib (header_row 118 100 18)"
    using isclose_118 by (simp add: invoice_relation_fails_def v)
  show ?thesis
    using header_relation [OF c, of "[header_row 120 100 18]" example_lib "items_frame []" "summary_frame []"]
      header_relation [OF c, of "[header_row 118 100 18]" example_lib "items_frame []" "summary_frame []"]
      not_isclose_120 ok
    by (simp add: header_frame_def v fmt_example str_nat_examples)
qed

section \<open>Step 3 on the line-item rows\<close>

lemma rd_coerced:
  assumes "c \<in> set cols" "set cols \<subseteq> set (columns df)" "i < length (rows df)"
  shows "rd (coerce_cols lib cols df) (rows (coerce_cols lib cols df) ! i) c
         = Inr (cell_value lib (rows df ! i) c)"
  using assms by (auto simp: rd_def coerce_cols_columns coerce_cols_cell)

lemma tax_disagree_iff: "tax_disagree es \<longleftrightarrow> 2 \<le> length es \<and> successive_far es"
  by (simp add: tax_disagree_def successive_far_def)

lemma successive_far_short: "length es < 2 \<Longrightarrow> \<not> successive_far es"
  by (auto simp: successive_far_def)

lemma items_rd:
  fixes lib :: pandas_lib
  assumes cols: "set relation_cols_items \<subseteq> set (columns df)" and i: "i < length (rows df)"
  defines "df' \<equiv> coerce_cols lib relation_cols_items df"
  shows "rd df' (rows df' ! i) ''taxable_value'' = Inr (cell_value lib (rows df ! i) ''taxable_value'')"
    "rd df' (rows df' ! i) ''rate_per_item_after_discount'' = Inr (cell_value lib (rows df ! i) ''rate_per_item_after_discount'')"
    "rd df' (rows df' ! i) ''quantity'' = Inr (cell_value lib (rows df ! i) ''quantity'')"
    "rd df' (rows df' ! i) ''sgst_amount'' = Inr (cell_value lib (rows df ! i) ''sgst_amount'')"
    "rd df' (rows df' ! i) ''cgst_amount'' = Inr (cell_value lib (rows df ! i) ''cgst_amount'')"
    "rd df' (rows df' ! i) ''igst_amount'' = Inr (cell_value lib (rows df ! i) ''igst_amount'')"
    "rd df' (rows df' ! i) ''sgst_rate'' = Inr (cell_value lib (rows df ! i) ''sgst_rate'')"
    "rd df' (rows df' ! i) ''cgst_rate'' = Inr (cell_value lib (rows df ! i) ''cgst_rate'')"
    "rd df' (rows df' ! i) ''igst_rate'' = Inr (cell_value lib (rows df ! i) ''igst_rate'')"
    "rd df' (rows df' ! i) ''tax_amount'' = Inr (cell_value lib (rows df ! i) ''tax_amount'')"
    "rd df' (rows df' ! i) ''tax_rate'' = Inr (cell_value lib (rows df ! i) ''tax_rate'')"
    "rd df' (rows df' ! i) ''final_amount'' = Inr (cell_value lib (rows df ! i) ''final_amount'')"
  unfolding df'_def
  by (rule rd_coerced [OF _ cols i], simp add: relation_cols_items_def)+

lemma base_value_coerced:
  assumes cols: "set relation_cols_items \<subseteq> set (columns df)" and i: "i < length (rows df)"
  shows "base_value (coerce_cols lib relation_cols_items df)
           (rows (coerce_cols lib relation_cols_items df) ! i) = Inr (row_base lib (rows df ! i))"
  by (simp add: base_value_def items_rd [OF cols i] bind_err_def row_base_def
      split: option.splits)

lemma tax_vars_coerced:
  assumes cols: "set relation_cols_items \<subseteq> set (columns df)" and i: "i < length (rows df)"
  shows "tax_vars (coerce_cols lib relation_cols_items df)
           (rows (coerce_cols lib relation_cols_items df) ! i) base
         = Inr (estimates lib (rows df ! i) base)"
  by (simp add: tax_vars_def tax_from_individual_amounts_def tax_from_individual_rates_def
      tax_from_amount_def tax_from_rate_def items_rd [OF cols i] bind_err_def estimates_def
      split: option.splits)

lemma final_check_coerced:
  assumes cols: "set relation_cols_items \<subseteq> set (columns df)" and i: "i < length (rows df)"
  shows "final_check lib (coerce_cols lib relation_cols_items df) idx
           (rows (coerce_cols lib relation_cols_items df) ! i) base es
         = Inr (case cell_value lib (rows df ! i) ''final_amount'' of
                  None \<Rightarrow> None
                | Some final_amount \<Rightarrow>
                    (case es of
                       [] \<Rightarrow> None
                     | tax_amount # _ \<Rightarrow>
                         if \<not> isclose final_amount (base + tax_amount)
                         then Some (final_mismatch lib idx final_amount base tax_amount)
                         else None))"
  by (simp add: final_check_def items_rd [OF cols i] bind_err_def
      split: option.splits list.splits)

lemma item_row_check_coerced:
  assumes cols: "set relation_cols_items \<subseteq> set (columns df)" and i: "i < length (rows df)"
  shows "item_row_check lib (coerce_cols lib relation_cols_items df) idx
           (rows (coerce_cols lib relation_cols_items df) ! i)
         = (case row_base lib (rows df ! i) of
              None \<Rightarrow> Inr None
            | Some base \<Rightarrow>
                if tax_disagree (estimates lib (rows df ! i) base) then Inr (Some (tax_mismatch idx))
                else final_check lib (coerce_cols lib relation_cols_items df) idx
                       (rows (coerce_cols lib relation_cols_items df) ! i) base
                       (estimates lib (rows df ! i) base))"
  by (simp add: item_row_check_def base_value_coerced [OF cols i] tax_vars_coerced [OF cols i]
      bind_err_def split: option.splits)

lemma final_mismatch_not_tax: "final_mismatch lib idx a b c \<noteq> tax_mismatch idx'"
  by (simp add: final_mismatch_def tax_mismatch_def)

lemma item_row_check_tax_iff:
  assumes cols: "set relation_cols_items \<subseteq> set (columns df)" and i: "i < length (rows df)"
  shows "item_row_check lib (coerce_cols lib relation_cols_items df) idx
           (rows (coerce_cols lib relation_cols_items df) ! i) = Inr (Some (tax_mismatch idx))
         \<longleftrightarrow> (\<exists>base. row_base lib (rows df ! i) = Some base \<and>
                2 \<le> length (estimates lib (rows df ! i) base) \<and>
                successive_far (estimates lib (rows df ! i) base))"
  by (auto simp: item_row_check_coerced [OF cols i] final_check_coerced [OF cols i]
      tax_disagree_iff final_mismatch_not_tax split: option.splits list.splits)

lemma items_loop_first:
  assumes cols: "set relation_cols_items \<subseteq> set (columns df)"
    and i: "i < length (rows df)"
    and before: "\<And>j. j < i \<Longrightarrow>
        item_row_check lib (coerce_cols lib relation_cols_items df) j
          (rows (coerce_cols lib relation_cols_items df) ! j) = Inr None"
    and base: "row_base lib (rows df ! i) = Some base"
    and far: "2 \<le> length (estimates lib (rows df ! i) base)"
      "successive_far (estimates lib (rows df ! i) base)"
  shows "iterrows (item_row_check lib (coerce_cols lib relation_cols_items df)) 0
           (rows (coerce_cols lib relation_cols_items df)) = Inr (Some (tax_mismatch i))"
proof (rule iterrows_first [where i = i])
  show "i < length (rows (coerce_cols lib relation_cols_items df))"
    using i by (simp add: coerce_cols_length)
  show "item_row_check lib (coerce_cols lib relation_cols_items df) (0 + i)
          (rows (coerce_cols lib relation_cols_items df) ! i) = Inr (Some (tax_mismatch i))"
    using item_row_check_tax_iff [OF cols i, of lib i] base far by auto
  show "Inr (Some (tax_mismatch i)) \<noteq> (Inr None :: error + string option)"
    by simp
  fix j assume "j < i"
  then show "item_row_check lib (coerce_cols lib relation_cols_items df) (0 + j)
          (rows (coerce_cols lib relation_cols_items df) ! j) = Inr None"
    using before by simp
qed

text \<open>
  C5. With the twelve columns in the line-item frame: for a row with a base value, the
  estimates Step 3 collects are, in this order, the sum of the three amounts, the base
  value times the sum of the three rates over 100, the tax amount, and the base value times
  the tax rate over 100, each only when all its inputs are present; the check of the row
  reports a tax mismatch exactly when there are at least two estimates and two successive
  ones are not close; and when no header row fails and the rows before it pass, Step 3
  fails at that row with the tax-mismatch message.
\<close>

theorem tax_estimates_agree:
  assumes cols: "set relation_cols_items \<subseteq> set (columns line_items_df)"
  shows
    "(\<forall>i base.
        i < length (rows line_items_df) \<and> row_base lib (rows line_items_df ! i) = Some base \<longrightarrow>
        tax_vars (coerce_cols lib relation_cols_items line_items_df)
          (rows (coerce_cols lib relation_cols_items line_items_df) ! i) base
          = Inr (estimates lib (rows line_items_df ! i) base) \<and>
        (\<forall>idx.
           item_row_check lib (coerce_cols lib relation_cols_items line_items_df) idx
             (rows (coerce_cols lib relation_cols_items line_items_df) ! i)
             = Inr (Some (''Tax amount mismatch at row '' @ str_nat idx
                     @ '': Different tax calculations yield different results''))
           \<longleftrightarrow> 2 \<le> length (estimates lib (rows line_items_df ! i) base) \<and>
               successive_far (estimates lib (rows line_items_df ! i) base))) \<and>
     (\<forall>i base.
        set relation_cols_invoice \<subseteq> set (columns invoice_df) \<and>
        (\<forall>r \<in> set (rows invoice_df). \<not> invoice_relation_fails lib r) \<and>
        i < length (rows line_items_df) \<and>
        (\<forall>j < i. item_row_check lib (coerce_cols lib relation_cols_items line_items_df) j
                    (rows (coerce_cols lib relation_cols_items line_items_df) ! j) = Inr None) \<and>
        row_base lib (rows line_items_df ! i) = Some base \<and>
        2 \<le> length (estimates lib (rows line_items_df ! i) base) \<and>
        successive_far (estimates lib (rows line_items_df ! i) base)
        \<longrightarrow> fst (check_relations lib invoice_df line_items_df total_summary_df)
              = Inr (False, ''Tax amount mismatch at row '' @ str_nat i
                       @ '': Different tax calculations yield different results''))"
proof (intro conjI allI impI)
  fix i base
  assume h: "i < length (rows line_items_df) \<and> row_base lib (rows line_items_df ! i) = Some base"
  then have i: "i < length (rows line_items_df)" by simp
  show "tax_vars (coerce_cols lib relation_cols_items line_items_df)
          (rows (coerce_cols lib relation_cols_items line_items_df) ! i) base
          = Inr (estimates lib (rows line_items_df ! i) base)"
    by (rule tax_vars_coerced [OF cols i])
  fix idx
  show "item_row_check lib (coerce_cols lib relation_cols_items line_items_df) idx
             (rows (coerce_cols lib relation_cols_items line_items_df) ! i)
             = Inr (Some (''Tax amount mismatch at row '' @ str_nat idx
                     @ '': Different tax calculations yield different results''))
           \<longleftrightarrow> 2 \<le> length (estimates lib (rows line_items_df ! i) base) \<and>
               successive_far (estimates lib (rows line_items_df ! i) base)"
    using item_row_check_tax_iff [OF cols i, of lib idx] h
    by (simp add: tax_mismatch_def)
next
  fix i base
  assume h: "set relation_cols_invoice \<subseteq> set (columns invoice_df) \<and>
        (\<forall>r \<in> set (rows invoice_df). \<not> invoice_relation_fails lib r) \<and>
        i < length (rows line_items_df) \<and>
        (\<forall>j < i. item_row_check lib (coerce_cols lib relation_cols_items line_items_df) j
                    (rows (coerce_cols lib relation_cols_items line_items_df) ! j) = Inr None) \<and>
        row_base lib (rows line_items_df ! i) = Some base \<and>
        2 \<le> length (estimates lib (rows line_items_df ! i) base) \<and>
        successive_far (estimates lib (rows line_items_df ! i) base)"
  have hdr: "iterrows (invoice_row_check lib (coerce_cols lib relation_cols_invoice invoice_df)) 0
           (rows (coerce_cols lib relation_cols_invoice invoice_df)) = Inr None"
    using h by (intro invoice_loop_pass) auto
  have "iterrows (item_row_check lib (coerce_cols lib relation_cols_items line_items_df)) 0
           (rows (coerce_cols lib relation_cols_items line_items_df)) = Inr (Some (tax_mismatch i))"
    using h by (intro items_loop_first [OF cols, where base = base]) auto
  with hdr show "fst (check_relations lib invoice_df line_items_df total_summary_df)
              = Inr (False, ''Tax amount mismatch at row '' @ str_nat i
                       @ '': Different tax calculations yield different results'')"
    by (simp add: check_relations_def relations_result_def Let_def tax_mismatch_def)
qed

lemma cell_value_item_row:
  "cell_value lib (item_row kvs) c = map_of kvs c"
  by (simp add: cell_value_def item_row_def split: option.splits)

lemma items_frame_cols: "set relation_cols_items \<subseteq> set (columns (items_frame rs))"
  by (simp add: relation_cols_items_def items_frame_def numeric_cols_items_def)

lemma header_frame_cols: "set relation_cols_invoice \<subseteq> set (columns (header_frame rs))"
  by (simp add: relation_cols_invoice_def header_frame_def invoice_reads_def)

lemma cell_value_header_row:
  "cell_value lib (header_row x y z) ''invoice_value'' = Some x"
  "cell_value lib (header_row x y z) ''taxable_value'' = Some y"
  "cell_value lib (header_row x y z) ''tax_amount'' = Some z"
  by (simp_all add: cell_value_def header_row_def)

lemma header_118_ok: "\<not> invoice_relation_fails lib (header_row 118 100 18)"
  using isclose_118 by (simp add: invoice_relation_fails_def cell_value_header_row)

lemma not_isclose_180_200: "\<not> isclose 180 200"
  by (simp add: isclose_def atol_def rtol_def)

lemma isclose_180_180: "isclose 180 180"
  by (simp add: isclose_def atol_def rtol_def)

theorem tax_estimates_agree_witness:
  "fst (check_relations example_lib (header_frame [header_row 118 100 18])
          (items_frame [item_row [(''taxable_value'', 1000), (''sgst_rate'', 9), (''cgst_rate'', 9),
                                 (''igst_rate'', 0), (''tax_amount'', 200)]])
          (summary_frame []))
     = Inr (False, ''Tax amount mismatch at row 0: Different tax calculations yield different results'') \<and>
   item_row_check example_lib
     (coerce_cols example_lib relation_cols_items
        (items_frame [item_row [(''taxable_value'', 1000), (''sgst_rate'', 9), (''cgst_rate'', 9),
                                (''igst_rate'', 0), (''tax_amount'', 180)]])) 0
     (rows (coerce_cols example_lib relation_cols_items
        (items_frame [item_row [(''taxable_value'', 1000), (''sgst_rate'', 9), (''cgst_rate'', 9),
                                (''igst_rate'', 0), (''tax_amount'', 180)]])) ! 0)
     \<noteq> Inr (Some ''Tax amount mismatch at row 0: Different tax calculations yield different results'')"
proof -
  let ?bad = "item_row [(''taxable_value'', 1000), (''sgst_rate'', 9), (''cgst_rate'', 9),
                        (''igst_rate'', 0), (''tax_amount'', 200)]"
  let ?good = "item_row [(''taxable_value'', 1000), (''sgst_rate'', 9), (''cgst_rate'', 9),
                        (''igst_rate'', 0), (''tax_amount'', 180)]"
  have b: "row_base example_lib ?bad = Some 1000" "row_base example_lib ?good = Some 1000"
    by (simp_all add: row_base_def cell_value_item_row)
  have e: "estimates example_lib ?bad 1000 = [180, 200]"
          "estimates example_lib ?good 1000 = [180, 180]"
    by (simp_all add: estimates_def cell_value_item_row)
  have f: "successive_far [180, 200]" "\<not> successive_far [180, 180]"
    using not_isclose_180_200 isclose_180_180 by (simp_all add: successive_far_def)
  have pre: "set relation_cols_invoice \<subseteq> set (columns (header_frame [header_row 118 100 18])) \<and>
        (\<forall>r \<in> set (rows (header_frame [header_row 118 100 18])). \<not> invoice_relation_fails example_lib r) \<and>
        0 < length (rows (items_frame [?bad])) \<and>
        (\<forall>j < 0. item_row_check example_lib (coerce_cols example_lib relation_cols_items (items_frame [?bad])) j
                    (rows (coerce_cols example_lib relation_cols_items (items_frame [?bad])) ! j) = Inr None) \<and>
        row_base example_lib (rows (items_frame [?bad]) ! 0) = Some 1000 \<and>
        2 \<le> length (estimates example_lib (rows (items_frame [?bad]) ! 0) 1000) \<and>
        successive_far (estimates example_lib (rows (items_frame [?bad]) ! 0) 1000)"
    using header_frame_cols [of "[header_row 118 100 18]"] header_118_ok [of example_lib]
    by (simp add: items_frame_def header_frame_def b e f)
  have pre': "0 < length (rows (items_frame [?good])) \<and>
        row_base example_lib (rows (items_frame [?good]) ! 0) = Some 1000"
    by (simp add: items_frame_def b)
  have A: "fst (check_relations example_lib (header_frame [header_row 118 100 18])
          (items_frame [?bad]) (summary_frame []))
     = Inr (False, ''Tax amount mismatch at row 0: Different tax calculations yield different results'')"
    using tax_estimates_agree [OF items_frame_cols, THEN conjunct2, rule_format, OF pre]
    by (simp add: str_nat_examples)
  have B: "item_row_check example_lib
     (coerce_cols example_lib relation_cols_items (items_frame [?good])) 0
     (rows (coerce_cols example_lib relation_cols_items (items_frame [?good])) ! 0)
     \<noteq> Inr (Some ''Tax amount mismatch at row 0: Different tax calculations yield different results'')"
    using tax_estimates_agree [OF items_frame_cols, THEN conjunct1, rule_format, OF pre',
        THEN conjunct2, THEN spec, of 0]
    by (simp add: items_frame_def e f str_nat_examples)
  from A B show ?thesis by simp
qed

text \<open>
  C6. With the twelve columns in the line-item frame, the base value of a row is its
  taxable value when that is present, else rate per item after discount times quantity
  when both are present; when neither holds the row has no base value and its check passes
  without reading anything further. A row with fewer than two tax estimates never gives a
  tax mismatch, and a row with no estimate at all passes its check.
\<close>

theorem base_value_rule:
  assumes cols: "set relation_cols_items \<subseteq> set (columns line_items_df)"
    and i: "i < length (rows line_items_df)"
  shows
    "(\<forall>x. cell_value lib (rows line_items_df ! i) ''taxable_value'' = Some x \<longrightarrow>
        base_value (coerce_cols lib relation_cols_items line_items_df)
          (rows (coerce_cols lib relation_cols_items line_items_df) ! i) = Inr (Some x)) \<and>
     (\<forall>rate quantity.
        cell_value lib (rows line_items_df ! i) ''taxable_value'' = None \<and>
        cell_value lib (rows line_items_df ! i) ''rate_per_item_after_discount'' = Some rate \<and>
        cell_value lib (rows line_items_df ! i) ''quantity'' = Some quantity \<longrightarrow>
        base_value (coerce_cols lib relation_cols_items line_items_df)
          (rows (coerce_cols lib relation_cols_items line_items_df) ! i)
          = Inr (Some (rate * quantity))) \<and>
     (cell_value lib (rows line_items_df ! i) ''taxable_value'' = None \<and>
      (cell_value lib (rows line_items_df ! i) ''rate_per_item_after_discount'' = None \<or>
       cell_value lib (rows line_items_df ! i) ''quantity'' = None) \<longrightarrow>
        base_value (coerce_cols lib relation_cols_items line_items_df)
          (rows (coerce_cols lib relation_cols_items line_items_df) ! i) = Inr None \<and>
        (\<forall>idx. item_row_check lib (coerce_cols lib relation_cols_items line_items_df) idx
                 (rows (coerce_cols lib relation_cols_items line_items_df) ! i) = Inr None)) \<and>
     (\<forall>base idx.
        row_base lib (rows line_items_df ! i) = Some base \<and>
        length (estimates lib (rows line_items_df ! i) base) < 2 \<longrightarrow>
        item_row_check lib (coerce_cols lib relation_cols_items line_items_df) idx
          (rows (coerce_cols lib relation_cols_items line_items_df) ! i)
          \<noteq> Inr (Some (''Tax amount mismatch at row '' @ str_nat idx
                    @ '': Different tax calculations yield different results''))) \<and>
     (\<forall>base idx.
        row_base lib (rows line_items_df ! i) = Some base \<and>
        estimates lib (rows line_items_df ! i) base = [] \<longrightarrow>
        item_row_check lib (coerce_cols lib relation_cols_items line_items_df) idx
          (rows (coerce_cols lib relation_cols_items line_items_df) ! i) = Inr None)"
proof (intro conjI allI impI)
  fix x
  assume "cell_value lib (rows line_items_df ! i) ''taxable_value'' = Some x"
  then show "base_value (coerce_cols lib relation_cols_items line_items_df)
          (rows (coerce_cols lib relation_cols_items line_items_df) ! i) = Inr (Some x)"
    by (simp add: base_value_coerced [OF cols i] row_base_def)
next
  fix rate quantity
  assume "cell_value lib (rows line_items_df ! i) ''taxable_value'' = None \<and>
        cell_value lib (rows line_items_df ! i) ''rate_per_item_after_discount'' = Some rate \<and>
        cell_value lib (rows line_items_df ! i) ''quantity'' = Some quantity"
  then show "base_value (coerce_cols lib relation_cols_items line_items_df)
          (rows (coerce_cols lib relation_cols_items line_items_df) ! i)
          = Inr (Some (rate * quantity))"
    by (simp add: base_value_coerced [OF cols i] row_base_def)
next
  assume h: "cell_value lib (rows line_items_df ! i) ''taxable_value'' = None \<and>
      (cell_value lib (rows line_items_df ! i) ''rate_per_item_after_discount'' = None \<or>
       cell_value lib (rows line_items_df ! i) ''quantity'' = None)"
  then have none: "row_base lib (rows line_items_df ! i) = None"
    by (auto simp: row_base_def split: option.splits)
  then show "base_value (coerce_cols lib relation_cols_items line_items_df)
          (rows (coerce_cols lib relation_cols_items line_items_df) ! i) = Inr None"
    by (simp add: base_value_coerced [OF cols i])
  fix idx
  from none show "item_row_check lib (coerce_cols lib relation_cols_items line_items_df) idx
                 (rows (coerce_cols lib relation_cols_items line_items_df) ! i) = Inr None"
    by (simp add: item_row_check_coerced [OF cols i])
next
  fix base idx
  assume h: "row_base lib (rows line_items_df ! i) = Some base \<and>
        length (estimates lib (rows line_items_df ! i) base) < 2"
  then show "item_row_check lib (coerce_cols lib relation_cols_items line_items_df) idx
          (rows (coerce_cols lib relation_cols_items line_items_df) ! i)
          \<noteq> Inr (Some (''Tax amount mismatch at row '' @ str_nat idx
                    @ '': Different tax calculations yield different results''))"
    using item_row_check_tax_iff [OF cols i, of lib idx]
    by (simp add: tax_mismatch_def)
next
  fix base idx
  assume h: "row_base lib (rows line_items_df ! i) = Some base \<and>
        estimates lib (rows line_items_df ! i) base = []"
  then show "item_row_check lib (coerce_cols lib relation_cols_items line_items_df) idx
          (rows (coerce_cols lib relation_cols_items line_items_df) ! i) = Inr None"
    by (simp add: item_row_check_coerced [OF cols i] final_check_coerced [OF cols i]
        tax_disagree_iff split: option.splits)
qed

theorem base_value_rule_witness:
  "base_value (coerce_cols example_lib relation_cols_items
       (items_frame [item_row [(''rate_per_item_after_discount'', 250), (''quantity'', 4),
                               (''igst_amount'', 180), (''final_amount'', 1180)]]))
     (rows (coerce_cols example_lib relation_cols_items
       (items_frame [item_row [(''rate_per_item_after_discount'', 250), (''quantity'', 4),
                               (''igst_amount'', 180), (''final_amount'', 1180)]])) ! 0)
     = Inr (Some (250 * 4)) \<and>
   item_row_check example_lib (coerce_cols example_lib relation_cols_items
       (items_frame [item_row [(''rate_per_item_after_discount'', 250), (''quantity'', 4),
                               (''igst_amount'', 180), (''final_amount'', 1180)]])) 0
     (rows (coerce_cols example_lib relation_cols_items
       (items_frame [item_row [(''rate_per_item_after_discount'', 250), (''quantity'', 4),
                               (''igst_amount'', 180), (''final_amount'', 1180)]])) ! 0)
     = Inr None \<and>
   item_row_check example_lib (coerce_cols example_lib relation_cols_items
       (items_frame [item_row [(''quantity'', 4), (''tax_amount'', 180), (''tax_rate'', 5),
                               (''final_amount'', 1180)]])) 0
     (rows (coerce_cols example_lib relation_cols_items
       (items_frame [item_row [(''quantity'', 4), (''tax_amount'', 180), (''tax_rate'', 5),
                               (''final_amount'', 1180)]])) ! 0)
     = Inr None"
proof -
  let ?r = "item_row [(''rate_per_item_after_discount'', 250), (''quantity'', 4),
                      (''igst_amount'', 180), (''final_amount'', 1180)]"
  let ?s = "item_row [(''quantity'', 4), (''tax_amount'', 180), (''tax_rate'', 5),
                      (''final_amount'', 1180)]"
  have l: "0 < length (rows (items_frame [r]))" for r
    by (simp add: items_frame_def)
  note tr = base_value_rule [OF items_frame_cols l [of ?r], where lib = example_lib]
  note ts = base_value_rule [OF items_frame_cols l [of ?s], where lib = example_lib]
  have r1: "cell_value example_lib (rows (items_frame [?r]) ! 0) ''taxable_value'' = None \<and>
        cell_value example_lib (rows (items_frame [?r]) ! 0) ''rate_per_item_after_discount'' = Some 250 \<and>
        cell_value example_lib (rows (items_frame [?r]) ! 0) ''quantity'' = Some 4"
    by (simp add: items_frame_def cell_value_item_row)
  have r2: "row_base example_lib (rows (items_frame [?r]) ! 0) = Some 1000 \<and>
        estimates example_lib (rows (items_frame [?r]) ! 0) 1000 = []"
    by (simp add: items_frame_def row_base_def estimates_def cell_value_item_row)
  have s1: "cell_value example_lib (rows (items_frame [?s]) ! 0) ''taxable_value'' = None \<and>
      (cell_value example_lib (rows (items_frame [?s]) ! 0) ''rate_per_item_after_discount'' = None \<or>
       cell_value example_lib (rows (items_frame [?s]) ! 0) ''quantity'' = None)"
    by (simp add: items_frame_def cell_value_item_row)
  from tr [THEN conjunct2, THEN conjunct1, rule_format, OF r1]
    tr [THEN conjunct2, THEN conjunct2, THEN conjunct2, THEN conjunct2, rule_format, OF r2, of 0]
    ts [THEN conjunct2, THEN conjunct2, THEN conjunct1, rule_format, OF s1, THEN conjunct2, THEN spec, of 0]
  show ?thesis by simp
qed

text \<open>
  C10. With the twelve columns in the line-item frame, a row that has a base value and a
  final amount but no tax estimate passes its check, whatever the final amount is.
\<close>

theorem final_amount_unchecked:
  assumes cols: "set relation_cols_items \<subseteq> set (columns line_items_df)"
    and i: "i < length (rows line_items_df)"
    and base: "row_base lib (rows line_items_df ! i) = Some base"
    and final: "cell_value lib (rows line_items_df ! i) ''final_amount'' = Some final_amount"
    and none: "estimates lib (rows line_items_df ! i) base = []"
  shows "item_row_check lib (coerce_cols lib relation_cols_items line_items_df) idx
           (rows (coerce_cols lib relation_cols_items line_items_df) ! i) = Inr None"
  using base final none
  by (simp add: item_row_check_coerced [OF cols i] final_check_coerced [OF cols i]
      tax_disagree_iff)

theorem final_amount_unchecked_witness:
  "item_row_check example_lib (coerce_cols example_lib relation_cols_items
       (items_frame [item_row [(''taxable_value'', 1000), (''igst_amount'', 180),
                               (''final_amount'', 5000)]])) 0
     (rows (coerce_cols example_lib relation_cols_items
       (items_frame [item_row [(''taxable_value'', 1000), (''igst_amount'', 180),
                               (''final_amount'', 5000)]])) ! 0)
     = Inr None"
proof -
  let ?r = "item_row [(''taxable_value'', 1000), (''igst_amount'', 180), (''final_amount'', 5000)]"
  have l: "0 < length (rows (items_frame [?r]))"
    by (simp add: items_frame_def)
  have b: "row_base example_lib (rows (items_frame [?r]) ! 0) = Some 1000"
    by (simp add: items_frame_def row_base_def cell_value_item_row)
  have f: "cell_value example_lib (rows (items_frame [?r]) ! 0) ''final_amount'' = Some 5000"
    by (simp add: items_frame_def cell_value_item_row)
  have e: "estimates example_lib (rows (items_frame [?r]) ! 0) 1000 = []"
    by (simp add: items_frame_def estimates_def cell_value_item_row)
  show ?thesis
    by (rule final_amount_unchecked [OF items_frame_cols l b f e])
qed

section \<open>The engine on the heap\<close>

lemma execute_steps_fst:
  assumes "i \<noteq> l" "i \<noteq> s"
  shows "fst (execute_steps lib h i l s) = verdict_of lib (objs h i) (objs h l) (objs h s)"
proof (cases "check_missing_values (objs h i) (objs h l) (objs h s)")
  case (Inl e)
  then show ?thesis by (simp add: execute_steps_def verdict_of_def)
next
  case (Inr pm)
  obtain p1 m1 where pm: "pm = (p1, m1)" by (cases pm)
  show ?thesis
  proof (cases p1)
    case False
    with Inr pm show ?thesis by (simp add: execute_steps_def verdict_of_def)
  next
    case True
    obtain p2 m2 dated where c2: "check_data_types lib (objs h i) (objs h l) (objs h s) = ((p2, m2), dated)"
      by (metis prod.exhaust)
    show ?thesis
    proof (cases p2)
      case False
      with Inr pm True c2 show ?thesis by (simp add: execute_steps_def verdict_of_def)
    next
      case p2: True
      obtain res i' l' s' where c3: "check_relations lib dated (objs h l) (objs h s) = (res, i', l', s')"
        by (metis prod.exhaust)
      from Inr pm True c2 p2 c3 assms show ?thesis
        by (simp add: execute_steps_def verdict_of_def store_def split: sum.splits)
    qed
  qed
qed

lemma store_other: "a \<noteq> b \<Longrightarrow> objs (store h b df) a = objs h a"
  by (simp add: store_def)

lemma store_next: "next_free (store h b df) = next_free h"
  by (simp add: store_def)

lemma execute_steps_snd:
  "\<exists>f1 f2 f3 f4. snd (execute_steps lib h i l s) = h \<or>
     snd (execute_steps lib h i l s) = store h i f1 \<or>
     snd (execute_steps lib h i l s) = store (store (store (store h i f1) i f2) l f3) s f4"
proof (cases "check_missing_values (objs h i) (objs h l) (objs h s)")
  case (Inl e)
  then show ?thesis by (simp add: execute_steps_def)
next
  case (Inr pm)
  obtain p1 m1 where pm: "pm = (p1, m1)" by (cases pm)
  show ?thesis
  proof (cases p1)
    case False
    with Inr pm show ?thesis by (simp add: execute_steps_def)
  next
    case True
    obtain p2 m2 dated where c2: "check_data_types lib (objs h i) (objs h l) (objs h s) = ((p2, m2), dated)"
      by (metis prod.exhaust)
    show ?thesis
    proof (cases p2)
      case False
      with Inr pm True c2 have "snd (execute_steps lib h i l s) = store h i dated"
        by (simp add: execute_steps_def)
      then show ?thesis by blast
    next
      case p2: True
      obtain res i' l' s' where c3:
        "check_relations lib (objs (store h i dated) i) (objs (store h i dated) l)
           (objs (store h i dated) s) = (res, i', l', s')"
        by (metis prod.exhaust)
      from Inr pm True c2 p2 c3
      have "snd (execute_steps lib h i l s) = store (store (store (store h i dated) i i') l l') s s'"
        by (simp add: execute_steps_def Let_def split: sum.splits)
      then show ?thesis by blast
    qed
  qed
qed

lemma execute_steps_heap:
  assumes "a \<noteq> i" "a \<noteq> l" "a \<noteq> s"
  shows "objs (snd (execute_steps lib h i l s)) a = objs h a"
  using execute_steps_snd [of lib h i l s] assms
  by (auto simp: store_other)

lemma execute_steps_next: "next_free (snd (execute_steps lib h i l s)) = next_free h"
  using execute_steps_snd [of lib h i l s]
  by (auto simp: store_next)

lemma alloc_objs:
  "objs (snd (alloc h df)) a = (if a = next_free h then df else objs h a)"
  by (simp add: alloc_def)

lemma alloc_next: "next_free (snd (alloc h df)) = Suc (next_free h)"
  by (simp add: alloc_def)

lemma alloc_fst: "fst (alloc h df) = next_free h"
  by (simp add: alloc_def)

lemma validate_invoice_data_alt:
  "validate_invoice_data lib h a1 a2 a3 =
     (let h1 = snd (alloc h (standardize_nulls (objs h a1)));
          h2 = snd (alloc h1 (standardize_nulls (objs h1 a2)));
          h3 = snd (alloc h2 (standardize_nulls (objs h2 a3)))
      in execute_steps lib h3 (next_free h) (Suc (next_free h)) (Suc (Suc (next_free h))))"
  by (simp add: validate_invoice_data_def Let_def case_prod_beta alloc_fst alloc_next)

lemma validate_invoice_data_fst:
  assumes "a1 < next_free h" "a2 < next_free h" "a3 < next_free h"
  shows "fst (validate_invoice_data lib h a1 a2 a3) =
     verdict_of lib (standardize_nulls (objs h a1)) (standardize_nulls (objs h a2))
       (standardize_nulls (objs h a3))"
  using assms
  by (simp add: validate_invoice_data_alt Let_def execute_steps_fst alloc_objs alloc_next)

lemma validate_invoice_data_heap:
  assumes "a < next_free h"
  shows "objs (snd (validate_invoice_data lib h a1 a2 a3)) a = objs h a"
  using assms
  by (simp add: validate_invoice_data_alt Let_def execute_steps_heap alloc_objs alloc_next)

lemma validate_invoice_data_next:
  "next_free (snd (validate_invoice_data lib h a1 a2 a3)) = next_free h + 3"
  by (simp add: validate_invoice_data_alt Let_def execute_steps_next alloc_next)

section \<open>Step 1\<close>

lemma first_false_Some:
  "first_false bs = Some k \<longleftrightarrow> k < length bs \<and> \<not> bs ! k \<and> (\<forall>j < k. bs ! j)"
proof (induction bs arbitrary: k)
  case Nil
  show ?case by simp
next
  case (Cons b bs)
  show ?case
  proof (cases b)
    case False
    then show ?thesis by (cases k) auto
  next
    case True
    show ?thesis
    proof (cases k)
      case 0
      with True show ?thesis by auto
    next
      case (Suc k')
      have "(\<forall>j < Suc k'. (b # bs) ! j) \<longleftrightarrow> (\<forall>j < k'. bs ! j)"
        using True by (auto simp: less_Suc_eq_0_disj)
      with True Suc Cons.IH [of k'] show ?thesis by auto
    qed
  qed
qed

lemma first_false_None: "first_false bs = None \<longleftrightarrow> (\<forall>b \<in> set bs. b)"
  by (induction bs) auto

lemma first_missing_None: "first_missing df cs = None \<longleftrightarrow> set cs \<subseteq> set (columns df)"
  by (auto simp: first_missing_def find_None_iff)

lemma check_missing_invoice_fails:
  assumes cols: "set invoice_reads \<subseteq> set (columns invoice_df)"
    and k: "k < length (rows invoice_df)"
    and bad: "\<not> invoice_condition (rows invoice_df ! k)"
    and before: "\<forall>j < k. invoice_condition (rows invoice_df ! j)"
  shows "check_missing_values invoice_df line_items_df total_summary_df =
     Inr (False, ''Missing required values in invoice_df: ''
            @ join_comma (missing_cols invoice_df k) @ '' at row '' @ str_nat k)"
proof -
  have "first_false (map invoice_condition (rows invoice_df)) = Some k"
    using k bad before by (simp add: first_false_Some)
  moreover have "first_missing invoice_df invoice_reads = None"
    using cols by (simp add: first_missing_None)
  ultimately show ?thesis by (simp add: check_missing_values_def)
qed

lemma check_missing_items_fails:
  assumes cols: "set invoice_reads \<subseteq> set (columns invoice_df)"
      "set line_items_reads \<subseteq> set (columns line_items_df)"
    and hdr: "\<forall>r \<in> set (rows invoice_df). invoice_condition r"
    and k: "k < length (rows line_items_df)"
    and bad: "\<not> line_items_condition (rows line_items_df ! k)"
    and before: "\<forall>j < k. line_items_condition (rows line_items_df ! j)"
  shows "check_missing_values invoice_df line_items_df total_summary_df =
     Inr (False, ''Missing required values in line_items_df at row '' @ str_nat k)"
proof -
  have "first_false (map line_items_condition (rows line_items_df)) = Some k"
    using k bad before by (simp add: first_false_Some)
  moreover have "first_false (map invoice_condition (rows invoice_df)) = None"
    using hdr by (simp add: first_false_None)
  moreover have "first_missing invoice_df invoice_reads = None"
    "first_missing line_items_df line_items_reads = None"
    using cols by (simp_all add: first_missing_None)
  ultimately show ?thesis by (simp add: check_missing_values_def)
qed

lemma check_missing_summary_fails:
  assumes cols: "set invoice_reads \<subseteq> set (columns invoice_df)"
      "set line_items_reads \<subseteq> set (columns line_items_df)"
      "set summary_reads \<subseteq> set (columns total_summary_df)"
    and hdr: "\<forall>r \<in> set (rows invoice_df). invoice_condition r"
    and items: "\<forall>r \<in> set (rows line_items_df). line_items_condition r"
    and k: "k < length (rows total_summary_df)"
    and bad: "\<not> summary_condition (rows total_summary_df ! k)"
    and before: "\<forall>j < k. summary_condition (rows total_summary_df ! j)"
  shows "check_missing_values invoice_df line_items_df total_summary_df =
     Inr (False, ''Missing required values in total_summary_df at row '' @ str_nat k)"
proof -
  have "first_false (map summary_condition (rows total_summary_df)) = Some k"
    using k bad before by (simp add: first_false_Some)
  moreover have "first_false (map invoice_condition (rows invoice_df)) = None"
    "first_false (map line_items_condition (rows line_items_df)) = None"
    using hdr items by (simp_all add: first_false_None)
  moreover have "first_missing invoice_df invoice_reads = None"
    "first_missing line_items_df line_items_reads = None"
    "first_missing total_summary_df summary_reads = None"
    using cols by (simp_all add: first_missing_None)
  ultimately show ?thesis by (simp add: check_missing_values_def)
qed

lemma check_missing_after_invoice:
  assumes "first_false (map invoice_condition (rows invoice_df)) = None"
  shows "check_missing_values invoice_df line_items_df total_summary_df
           \<noteq> Inr (False, ''Missing required values in invoice_df: '' @ m)"
  using assms
  by (simp add: check_missing_values_def split: option.splits)

lemma first_false_exists:
  "(\<exists>k. first_false bs = Some k) \<longleftrightarrow> (\<exists>b \<in> set bs. \<not> b)"
  using first_false_None [of bs] by (cases "first_false bs") auto

lemma isna_iff: "isna c \<longleftrightarrow> c = NaN"
  by (cases c) simp_all

text \<open>
  C4. With the nine columns in the invoice frame, a header row passes Step 1 exactly when
  invoice number, invoice date, place of supply, place of origin, receiver name, supplier
  GSTIN and tax amount are all present and taxable value or invoice value is present. On
  the first header row that does not pass, Step 1 reports the invoice frame, the columns of
  the frame that are null in that row and the 0-based index of the row; Step 1 reports the
  invoice frame exactly when some header row does not pass.
\<close>

theorem header_presence:
  assumes cols: "set invoice_reads \<subseteq> set (columns invoice_df)"
  shows
    "(\<forall>k. k < length (rows invoice_df) \<and> \<not> invoice_condition (rows invoice_df ! k) \<and>
          (\<forall>j < k. invoice_condition (rows invoice_df ! j)) \<longrightarrow>
          check_missing_values invoice_df line_items_df total_summary_df =
            Inr (False, ''Missing required values in invoice_df: ''
                   @ join_comma (filter (\<lambda>col. (rows invoice_df ! k) col = NaN) (columns invoice_df))
                   @ '' at row '' @ str_nat k)) \<and>
     ((\<exists>m. check_missing_values invoice_df line_items_df total_summary_df =
             Inr (False, ''Missing required values in invoice_df: '' @ m))
        \<longleftrightarrow> (\<exists>r \<in> set (rows invoice_df). \<not> invoice_condition r)) \<and>
     (\<forall>r. invoice_condition r \<longleftrightarrow>
        r ''invoice_number'' \<noteq> NaN \<and> r ''invoice_date'' \<noteq> NaN \<and>
        r ''place_of_supply'' \<noteq> NaN \<and> r ''place_of_origin'' \<noteq> NaN \<and>
        r ''receiver_name'' \<noteq> NaN \<and> r ''gstin_supplier'' \<noteq> NaN \<and>
        r ''tax_amount'' \<noteq> NaN \<and>
        (r ''taxable_value'' \<noteq> NaN \<or> r ''invoice_value'' \<noteq> NaN))"
proof (intro conjI allI impI)
  fix k
  assume h: "k < length (rows invoice_df) \<and> \<not> invoice_condition (rows invoice_df ! k) \<and>
          (\<forall>j < k. invoice_condition (rows invoice_df ! j))"
  then show "check_missing_values invoice_df line_items_df total_summary_df =
            Inr (False, ''Missing required values in invoice_df: ''
                   @ join_comma (filter (\<lambda>col. (rows invoice_df ! k) col = NaN) (columns invoice_df))
                   @ '' at row '' @ str_nat k)"
    using check_missing_invoice_fails [OF cols, of k line_items_df total_summary_df]
    by (simp add: missing_cols_def isna_iff)
next
  show "(\<exists>m. check_missing_values invoice_df line_items_df total_summary_df =
             Inr (False, ''Missing required values in invoice_df: '' @ m))
        \<longleftrightarrow> (\<exists>r \<in> set (rows invoice_df). \<not> invoice_condition r)"
  proof
    assume "\<exists>m. check_missing_values invoice_df line_items_df total_summary_df =
             Inr (False, ''Missing required values in invoice_df: '' @ m)"
    then have "first_false (map invoice_condition (rows invoice_df)) \<noteq> None"
      using check_missing_after_invoice [of invoice_df line_items_df total_summary_df] by blast
    then show "\<exists>r \<in> set (rows invoice_df). \<not> invoice_condition r"
      by (auto simp: first_false_None)
  next
    assume "\<exists>r \<in> set (rows invoice_df). \<not> invoice_condition r"
    then have "\<exists>b \<in> set (map invoice_condition (rows invoice_df)). \<not> b" by auto
    then obtain k where "first_false (map invoice_condition (rows invoice_df)) = Some k"
      using first_false_exists by blast
    then have "k < length (rows invoice_df)" "\<not> invoice_condition (rows invoice_df ! k)"
      "\<forall>j < k. invoice_condition (rows invoice_df ! j)"
      by (auto simp: first_false_Some)
    from check_missing_invoice_fails [OF cols this]
    show "\<exists>m. check_missing_values invoice_df line_items_df total_summary_df =
             Inr (False, ''Missing required values in invoice_df: '' @ m)"
      by auto
  qed
next
  fix r
  show "invoice_condition r \<longleftrightarrow>
        r ''invoice_number'' \<noteq> NaN \<and> r ''invoice_date'' \<noteq> NaN \<and>
        r ''place_of_supply'' \<noteq> NaN \<and> r ''place_of_origin'' \<noteq> NaN \<and>
        r ''receiver_name'' \<noteq> NaN \<and> r ''gstin_supplier'' \<noteq> NaN \<and>
        r ''tax_amount'' \<noteq> NaN \<and>
        (r ''taxable_value'' \<noteq> NaN \<or> r ''invoice_value'' \<noteq> NaN)"
    by (auto simp: invoice_condition_def notna_def isna_iff)
qed

lemma header_frame_reads: "set invoice_reads \<subseteq> set (columns (header_frame rs))"
  by (simp add: header_frame_def)

theorem header_presence_witness:
  "check_missing_values
     (header_frame [header_row 118 100 18, (header_row 118 100 18)(''gstin_supplier'' := NaN)])
     (items_frame []) (summary_frame [])
   = Inr (False, ''Missing required values in invoice_df: gstin_supplier at row 1'')"
proof -
  let ?bad = "(header_row 118 100 18)(''gstin_supplier'' := NaN)"
  have pre: "1 < length (rows (header_frame [header_row 118 100 18, ?bad])) \<and>
      \<not> invoice_condition (rows (header_frame [header_row 118 100 18, ?bad]) ! 1) \<and>
      (\<forall>j < 1. invoice_condition (rows (header_frame [header_row 118 100 18, ?bad]) ! j))"
    by (simp add: header_frame_def invoice_condition_def notna_def header_row_def)
  have m: "filter (\<lambda>col. (rows (header_frame [header_row 118 100 18, ?bad]) ! 1) col = NaN)
             (columns (header_frame [header_row 118 100 18, ?bad])) = [''gstin_supplier'']"
    by (simp add: header_frame_def invoice_reads_def header_row_def)
  have s: "str_nat 1 = ''1''"
    by (simp add: str_nat.simps digit_def)
  show ?thesis
    using header_presence [OF header_frame_reads, THEN conjunct1, rule_format, OF pre,
        of "items_frame []" "summary_frame []"]
    unfolding m s by simp
qed

section \<open>The verdict\<close>

lemma verdict_of_cases:
  obtains (raise1) e where "check_missing_values i l s = Inl e" "verdict_of lib i l s = Inl e"
  | (fail1) m where "check_missing_values i l s = Inr (False, m)"
      "verdict_of lib i l s = Inr (False, ''Step 1: Missing Values'', m)"
  | (fail2) m1 m d where "check_missing_values i l s = Inr (True, m1)"
      "check_data_types lib i l s = ((False, m), d)"
      "verdict_of lib i l s = Inr (False, ''Step 2: Data Types'', m)"
  | (raise3) m1 m2 d e where "check_missing_values i l s = Inr (True, m1)"
      "check_data_types lib i l s = ((True, m2), d)"
      "fst (check_relations lib d l s) = Inl e" "verdict_of lib i l s = Inl e"
  | (fail3) m1 m2 d m where "check_missing_values i l s = Inr (True, m1)"
      "check_data_types lib i l s = ((True, m2), d)"
      "fst (check_relations lib d l s) = Inr (False, m)"
      "verdict_of lib i l s = Inr (False, ''Step 3: Relations'', m)"
  | (pass) m1 m2 d m3 where "check_missing_values i l s = Inr (True, m1)"
      "check_data_types lib i l s = ((True, m2), d)"
      "fst (check_relations lib d l s) = Inr (True, m3)"
      "verdict_of lib i l s = Inr (True, ''All Steps'', ''Validation successful'')"
proof (cases "check_missing_values i l s")
  case (Inl e)
  then show ?thesis using raise1 by (simp add: verdict_of_def)
next
  case (Inr pm)
  obtain p1 m1 where pm: "pm = (p1, m1)" by (cases pm)
  show ?thesis
  proof (cases p1)
    case False
    with Inr pm show ?thesis using fail1 by (simp add: verdict_of_def)
  next
    case True
    obtain p2 m2 d where c2: "check_data_types lib i l s = ((p2, m2), d)"
      by (metis prod.exhaust)
    show ?thesis
    proof (cases p2)
      case False
      with Inr pm True c2 show ?thesis using fail2 by (simp add: verdict_of_def)
    next
      case p2: True
      show ?thesis
      proof (cases "fst (check_relations lib d l s)")
        case (Inl e)
        with Inr pm True c2 p2 show ?thesis using raise3 by (simp add: verdict_of_def)
      next
        case r: (Inr pm3)
        obtain p3 m3 where pm3: "pm3 = (p3, m3)" by (cases pm3)
        show ?thesis
        proof (cases p3)
          case False
          with Inr pm True c2 p2 r pm3 show ?thesis using fail3 by (simp add: verdict_of_def)
        next
          case p3: True
          with Inr pm True c2 p2 r pm3 show ?thesis using pass by (simp add: verdict_of_def)
        qed
      qed
    qed
  qed
qed

lemma verdict_of_gates:
  "(verdict_of lib i l s = Inr (True, ''All Steps'', ''Validation successful'') \<or>
    (\<exists>m. verdict_of lib i l s = Inr (False, ''Step 1: Missing Values'', m)) \<or>
    (\<exists>m. verdict_of lib i l s = Inr (False, ''Step 2: Data Types'', m)) \<or>
    (\<exists>m. verdict_of lib i l s = Inr (False, ''Step 3: Relations'', m)) \<or>
    (\<exists>e. verdict_of lib i l s = Inl e)) \<and>
   (\<forall>m. verdict_of lib i l s = Inr (False, ''Step 1: Missing Values'', m)
      \<longleftrightarrow> check_missing_values i l s = Inr (False, m)) \<and>
   (\<forall>m. verdict_of lib i l s = Inr (False, ''Step 2: Data Types'', m)
      \<longleftrightarrow> (\<exists>m1. check_missing_values i l s = Inr (True, m1)) \<and>
          (\<exists>d. check_data_types lib i l s = ((False, m), d))) \<and>
   (\<forall>m. verdict_of lib i l s = Inr (False, ''Step 3: Relations'', m)
      \<longleftrightarrow> (\<exists>m1. check_missing_values i l s = Inr (True, m1)) \<and>
          (\<exists>m2 d. check_data_types lib i l s = ((True, m2), d) \<and>
                  fst (check_relations lib d l s) = Inr (False, m))) \<and>
   (verdict_of lib i l s = Inr (True, ''All Steps'', ''Validation successful'')
      \<longleftrightarrow> (\<exists>m1. check_missing_values i l s = Inr (True, m1)) \<and>
          (\<exists>m2 d m3. check_data_types lib i l s = ((True, m2), d) \<and>
                     fst (check_relations lib d l s) = Inr (True, m3))) \<and>
   (\<forall>step details. verdict_of lib i l s = Inr (True, step, details)
      \<longrightarrow> step = ''All Steps'' \<and> details = ''Validation successful'')"
  by (cases rule: verdict_of_cases [of i l s lib]) simp_all

lemma standardize_nulls_columns: "columns (standardize_nulls df) = columns df"
  by (simp add: standardize_nulls_def)

lemma check_missing_fails_any:
  assumes cols: "set invoice_reads \<subseteq> set (columns invoice_df)"
      "set line_items_reads \<subseteq> set (columns line_items_df)"
      "set summary_reads \<subseteq> set (columns total_summary_df)"
    and bad: "(\<exists>r \<in> set (rows invoice_df). \<not> invoice_condition r) \<or>
      (\<exists>r \<in> set (rows line_items_df). \<not> line_items_condition r) \<or>
      (\<exists>r \<in> set (rows total_summary_df). \<not> summary_condition r)"
  shows "\<exists>m. check_missing_values invoice_df line_items_df total_summary_df = Inr (False, m)"
proof -
  have m: "first_missing invoice_df invoice_reads = None"
    "first_missing line_items_df line_items_reads = None"
    "first_missing total_summary_df summary_reads = None"
    using cols by (simp_all add: first_missing_None)
  have "\<not> (first_false (map invoice_condition (rows invoice_df)) = None \<and>
       first_false (map line_items_condition (rows line_items_df)) = None \<and>
       first_false (map summary_condition (rows total_summary_df)) = None)"
    using bad by (auto simp: first_false_None)
  then show ?thesis
    by (auto simp: check_missing_values_def m split: option.splits)
qed

lemma example_heap_simps:
  "objs (example_heap i l s) 0 = i" "objs (example_heap i l s) 1 = l"
  "objs (example_heap i l s) 2 = s" "next_free (example_heap i l s) = 3"
  by (simp_all add: example_heap_def)

lemma items_frame_reads: "set line_items_reads \<subseteq> set (columns (items_frame rs))"
  by (simp add: line_items_reads_def items_frame_def numeric_cols_items_def)

lemma summary_frame_reads: "set summary_reads \<subseteq> set (columns (summary_frame rs))"
  by (simp add: summary_reads_def summary_frame_def numeric_cols_summary_def)

lemma standardize_nulls_rows:
  "rows (standardize_nulls df) = map (\<lambda>r c. replace_cell null_strings (r c)) (rows df)"
  by (simp add: standardize_nulls_def)

lemma replace_cell_item_row: "replace_cell xs (item_row kvs c) = item_row kvs c"
  by (simp add: item_row_def split: option.splits)

lemma replace_cell_summary_row: "replace_cell xs (summary_row kvs c) = summary_row kvs c"
  by (simp add: summary_row_def split: option.splits)

lemma replace_cell_header_row:
  "replace_cell null_strings (header_row x y z c) = header_row x y z c"
  by (simp add: header_row_def null_strings_def)

lemma standardize_nulls_examples:
  "standardize_nulls (header_frame [header_row x y z]) = header_frame [header_row x y z]"
  "standardize_nulls (items_frame (map item_row ks)) = items_frame (map item_row ks)"
  "standardize_nulls (summary_frame (map summary_row ks)) = summary_frame (map summary_row ks)"
  by (simp_all add: standardize_nulls_def header_frame_def items_frame_def summary_frame_def
      replace_cell_header_row replace_cell_item_row replace_cell_summary_row o_def)

lemma header_row_condition: "invoice_condition (header_row x y z)"
  by (simp add: invoice_condition_def notna_def header_row_def)

text \<open>
  C9. For caller's frames that are objects of the heap, the call leaves every object that
  was on the heap before it as it was, the caller's three frames among them, and a second
  call on the heap the first one leaves gives the same result as the first.
\<close>

theorem validate_twice:
  assumes allocated: "a1 < next_free h" "a2 < next_free h" "a3 < next_free h"
  shows
    "(\<forall>a < next_free h. objs (snd (validate_invoice_data lib h a1 a2 a3)) a = objs h a) \<and>
     fst (validate_invoice_data lib (snd (validate_invoice_data lib h a1 a2 a3)) a1 a2 a3)
       = fst (validate_invoice_data lib h a1 a2 a3)"
proof
  show "\<forall>a < next_free h. objs (snd (validate_invoice_data lib h a1 a2 a3)) a = objs h a"
    by (simp add: validate_invoice_data_heap)
  let ?h' = "snd (validate_invoice_data lib h a1 a2 a3)"
  have n: "a1 < next_free ?h'" "a2 < next_free ?h'" "a3 < next_free ?h'"
    using allocated by (simp_all add: validate_invoice_data_next)
  have o: "objs ?h' a1 = objs h a1" "objs ?h' a2 = objs h a2" "objs ?h' a3 = objs h a3"
    using allocated by (simp_all add: validate_invoice_data_heap)
  show "fst (validate_invoice_data lib ?h' a1 a2 a3) = fst (validate_invoice_data lib h a1 a2 a3)"
    by (simp add: validate_invoice_data_fst [OF n] validate_invoice_data_fst [OF allocated] o)
qed

theorem validate_twice_witness:
  "objs (snd (validate_invoice_data example_lib
       (example_heap (header_frame [header_row 120 100 18]) (items_frame []) (summary_frame []))
       0 1 2)) 0
     = header_frame [header_row 120 100 18] \<and>
   fst (validate_invoice_data example_lib
     (snd (validate_invoice_data example_lib
       (example_heap (header_frame [header_row 120 100 18]) (items_frame []) (summary_frame []))
       0 1 2)) 0 1 2)
     = fst (validate_invoice_data example_lib
       (example_heap (header_frame [header_row 120 100 18]) (items_frame []) (summary_frame []))
       0 1 2)"
proof -
  let ?h = "example_heap (header_frame [header_row 120 100 18]) (items_frame []) (summary_frame [])"
  have a: "0 < next_free ?h" "1 < next_free ?h" "2 < next_free ?h"
    by (simp_all add: example_heap_simps)
  from validate_twice [OF a, of example_lib] a(1) show ?thesis
    by (simp add: example_heap_simps)
qed

section \<open>The normalizer\<close>

lemma replace_cell_eq:
  "replace_cell xs c = (if c \<in> Str ` set xs then NaN else c)"
  by (cases c) auto

text \<open>
  C3, as the claim states it, fails: a cell holding \<open>NAN\<close> matches \<open>nan\<close> when case is
  ignored, and the normalizer leaves it as it is.
\<close>

theorem standardize_nulls_case_counterexample:
  "(rows (standardize_nulls \<lparr>columns = [''receiver_name''], rows = [\<lambda>c. Str ''NAN'']\<rparr>) ! 0)
     ''receiver_name'' = Str ''NAN''"
  by (simp add: standardize_nulls_def null_strings_def)

text \<open>
  C3, amended. The normalizer keeps the columns and the number of rows, turns every cell
  that is exactly one of the five strings \<open>''\<close>, \<open>nan\<close>, \<open>null\<close>, \<open>none\<close>, \<open>None\<close>
  into the null marker, and returns every other cell as it is; it is a total function of
  the frame.
\<close>

theorem standardize_nulls_exact:
  "columns (standardize_nulls df) = columns df \<and>
   length (rows (standardize_nulls df)) = length (rows df) \<and>
   (\<forall>i < length (rows df). \<forall>c.
      (rows (standardize_nulls df) ! i) c =
        (if (rows df ! i) c \<in> {Str '''', Str ''nan'', Str ''null'', Str ''none'', Str ''None''}
         then NaN else (rows df ! i) c))"
  by (auto simp: standardize_nulls_def replace_cell_eq null_strings_def)

theorem standardize_nulls_exact_witness:
  "(rows (standardize_nulls
       \<lparr>columns = [''receiver_name'', ''tax_amount''],
          rows = [(\<lambda>c. NaN)(''receiver_name'' := Str ''Null'', ''tax_amount'' := Str ''null'')]\<rparr>) ! 0)
     ''tax_amount'' = NaN \<and>
   (rows (standardize_nulls
       \<lparr>columns = [''receiver_name'', ''tax_amount''],
          rows = [(\<lambda>c. NaN)(''receiver_name'' := Str ''Null'', ''tax_amount'' := Str ''null'')]\<rparr>) ! 0)
     ''receiver_name'' = Str ''Null''"
  using standardize_nulls_exact [of
      "\<lparr>columns = [''receiver_name'', ''tax_amount''],
          rows = [(\<lambda>c. NaN)(''receiver_name'' := Str ''Null'', ''tax_amount'' := Str ''null'')]\<rparr>"]
  by simp

section \<open>The comparison\<close>

lemma coerce_cols_no_rows: "rows df = [] \<Longrightarrow> rows (coerce_cols lib cols df) = []"
  by (simp add: coerce_cols_rows)

lemma check_relations_header_only:
  "fst (check_relations lib (header_frame [header_row x y z]) (items_frame []) (summary_frame []))
     = (if isclose x (y + z) then Inr (True, []) else Inr (False, invoice_mismatch lib 0 x y z))"
proof (cases "isclose x (y + z)")
  case True
  have "\<not> invoice_relation_fails lib r" if "r \<in> set (rows (header_frame [header_row x y z]))" for r
    using that True by (simp add: header_frame_def invoice_relation_fails_def cell_value_header_row)
  from invoice_loop_pass [OF header_frame_cols this]
  have "iterrows (invoice_row_check lib (coerce_cols lib relation_cols_invoice (header_frame [header_row x y z]))) 0
          (rows (coerce_cols lib relation_cols_invoice (header_frame [header_row x y z]))) = Inr None"
    by simp
  with True show ?thesis
    by (simp add: check_relations_def relations_result_def Let_def coerce_cols_no_rows
        items_frame_def summary_frame_def)
next
  case False
  have "iterrows (invoice_row_check lib (coerce_cols lib relation_cols_invoice (header_frame [header_row x y z]))) 0
          (rows (coerce_cols lib relation_cols_invoice (header_frame [header_row x y z])))
        = Inr (Some (invoice_mismatch lib 0 x y z))"
    using False
    by (intro invoice_loop_first [OF header_frame_cols])
       (simp_all add: header_frame_def cell_value_header_row)
  with False show ?thesis
    by (simp add: check_relations_def relations_result_def Let_def)
qed

text \<open>
  C2, as the claim states it, fails twice. The comparison is not the symmetric one: 100000
  against 99999 + 0 is within \<open>1e-5\<close> of the larger magnitude, and Step 3 fails on it.
  And the verdict is not invariant under scaling: \<open>5e-9\<close> against 0 + 0 passes, while the
  same row with every value multiplied by \<open>1e9\<close> fails.
\<close>

theorem isclose_relative_counterexample:
  "fst (check_relations example_lib (header_frame [header_row 100000 99999 0]) (items_frame [])
          (summary_frame []))
     = Inr (False, ''Invoice value mismatch at row 0: 100000 != 99999 + 0'') \<and>
   \<bar>100000 - (99999 + 0)\<bar> \<le> 1 / 10 ^ 5 * max \<bar>100000 :: real\<bar> \<bar>99999 + 0\<bar> \<and>
   fst (check_relations example_lib (header_frame [header_row (5 / 10 ^ 9) 0 0]) (items_frame [])
          (summary_frame []))
     = Inr (True, []) \<and>
   fst (check_relations example_lib
          (header_frame [header_row (10 ^ 9 * (5 / 10 ^ 9)) (10 ^ 9 * 0) (10 ^ 9 * 0)])
          (items_frame []) (summary_frame []))
     = Inr (False, ''Invoice value mismatch at row 0: 5 != 0 + 0'')"
proof -
  have c: "\<not> isclose 100000 (99999 + 0)" "isclose (5 / 10 ^ 9) (0 + 0)" "\<not> isclose 5 (0 + 0)"
    by (simp_all add: isclose_def atol_def rtol_def)
  have s: "str_nat 100000 = ''100000''" "str_nat 99999 = ''99999''" "str_nat 5 = ''5''"
    by (simp_all add: str_nat.simps digit_def)
  show ?thesis
    using c
    by (simp add: check_relations_header_only invoice_mismatch_def fmt_example s str_nat_examples)
       (simp add: example_lib_def str_nat_examples)
qed

section \<open>Steps 1 and 2 on frames that pass\<close>

lemma check_missing_pass:
  assumes "set invoice_reads \<subseteq> set (columns invoice_df)"
      "set line_items_reads \<subseteq> set (columns line_items_df)"
      "set summary_reads \<subseteq> set (columns total_summary_df)"
    and "\<forall>r \<in> set (rows invoice_df). invoice_condition r"
      "\<forall>r \<in> set (rows line_items_df). line_items_condition r"
      "\<forall>r \<in> set (rows total_summary_df). summary_condition r"
  shows "check_missing_values invoice_df line_items_df total_summary_df = Inr (True, [])"
proof -
  have "first_false (map invoice_condition (rows invoice_df)) = None"
    "first_false (map line_items_condition (rows line_items_df)) = None"
    "first_false (map summary_condition (rows total_summary_df)) = None"
    using assms(4-6) by (simp_all add: first_false_None)
  moreover have "first_missing invoice_df invoice_reads = None"
    "first_missing line_items_df line_items_reads = None"
    "first_missing total_summary_df summary_reads = None"
    using assms(1-3) by (simp_all add: first_missing_None)
  ultimately show ?thesis by (simp add: check_missing_values_def)
qed

lemma first_raised_None: "(\<forall>x \<in> set xs. f x = None) \<Longrightarrow> first_raised f xs = None"
  by (induction xs) auto

lemma check_numeric_col_ok:
  assumes "c \<in> set (columns df)" "\<forall>r \<in> set (rows df). to_numeric_ok lib (r c)"
  shows "check_numeric_col lib df c = None"
  using assms
  by (auto simp: check_numeric_col_def getcol_def Let_def list_all_iff)

lemma check_numeric_cols_ok:
  assumes "set cs \<subseteq> set (columns df)" "\<forall>r \<in> set (rows df). \<forall>c \<in> set cs. to_numeric_ok lib (r c)"
  shows "first_raised (check_numeric_col lib df) cs = None"
  using assms by (intro first_raised_None) (auto intro: check_numeric_col_ok)

lemma check_data_types_pass:
  assumes date: "''invoice_date'' \<in> set (columns invoice_df)"
      "\<forall>r \<in> set (rows invoice_df). isna (r ''invoice_date'') \<or> to_datetime1 lib (r ''invoice_date'') \<noteq> None"
    and cols: "set numeric_cols_invoice \<subseteq> set (columns invoice_df)"
      "set numeric_cols_items \<subseteq> set (columns line_items_df)"
      "set numeric_cols_summary \<subseteq> set (columns total_summary_df)"
    and nums: "\<forall>r \<in> set (rows invoice_df). \<forall>c \<in> set numeric_cols_invoice. to_numeric_ok lib (r c)"
      "\<forall>r \<in> set (rows line_items_df). \<forall>c \<in> set numeric_cols_items. to_numeric_ok lib (r c)"
      "\<forall>r \<in> set (rows total_summary_df). \<forall>c \<in> set numeric_cols_summary. to_numeric_ok lib (r c)"
  shows "check_data_types lib invoice_df line_items_df total_summary_df =
     ((True, []), mapcol invoice_df ''invoice_date'' (to_datetime_cell lib))"
proof -
  let ?d = "mapcol invoice_df ''invoice_date'' (to_datetime_cell lib)"
  have "''invoice_date'' \<notin> set numeric_cols_invoice"
    by (simp add: numeric_cols_invoice_def)
  then have "\<forall>r \<in> set (rows ?d). \<forall>c \<in> set numeric_cols_invoice. to_numeric_ok lib (r c)"
    using nums(1) by (auto simp: mapcol_def)
  moreover have "set numeric_cols_invoice \<subseteq> set (columns ?d)"
    using cols(1) by (simp add: mapcol_columns)
  ultimately have 1: "first_raised (check_numeric_col lib ?d) numeric_cols_invoice = None"
    by (rule check_numeric_cols_ok [rotated])
  have 2: "first_raised (check_numeric_col lib line_items_df) numeric_cols_items = None"
    by (rule check_numeric_cols_ok [OF cols(2) nums(2)])
  have 3: "first_raised (check_numeric_col lib total_summary_df) numeric_cols_summary = None"
    by (rule check_numeric_cols_ok [OF cols(3) nums(3)])
  have 4: "list_all (\<lambda>c. isna c \<or> to_datetime1 lib c \<noteq> None) (map (\<lambda>r. r ''invoice_date'') (rows invoice_df))"
    using date(2) by (simp add: list_all_iff)
  show ?thesis
    using date(1) 1 2 3 4 by (simp add: check_data_types_def getcol_def Let_def)
qed

section \<open>Step 3 on the summary rows\<close>

lemma summary_rd:
  fixes lib :: pandas_lib
  assumes cols: "set relation_cols_summary \<subseteq> set (columns df)" and i: "i < length (rows df)"
  defines "df' \<equiv> coerce_cols lib relation_cols_summary df"
  shows "rd df' (rows df' ! i) ''total_tax_amount'' = Inr (cell_value lib (rows df ! i) ''total_tax_amount'')"
    "rd df' (rows df' ! i) ''total_cgst_amount'' = Inr (cell_value lib (rows df ! i) ''total_cgst_amount'')"
    "rd df' (rows df' ! i) ''total_sgst_amount'' = Inr (cell_value lib (rows df ! i) ''total_sgst_amount'')"
    "rd df' (rows df' ! i) ''total_igst_amount'' = Inr (cell_value lib (rows df ! i) ''total_igst_amount'')"
    "rd df' (rows df' ! i) ''total_taxable_value'' = Inr (cell_value lib (rows df ! i) ''total_taxable_value'')"
    "rd df' (rows df' ! i) ''total_invoice_value'' = Inr (cell_value lib (rows df ! i) ''total_invoice_value'')"
  unfolding df'_def
  by (rule rd_coerced [OF _ cols i], simp add: relation_cols_summary_def)+

lemma resolve_total_tax_coerced:
  assumes cols: "set relation_cols_summary \<subseteq> set (columns df)" and i: "i < length (rows df)"
  shows "resolve_total_tax (coerce_cols lib relation_cols_summary df)
           (rows (coerce_cols lib relation_cols_summary df) ! i) total_tax
         = Inr (case cell_value lib (rows df ! i) ''total_tax_amount'' of
                  Some total_tax_amount \<Rightarrow> Some total_tax_amount
                | None \<Rightarrow>
                    (case (cell_value lib (rows df ! i) ''total_cgst_amount'',
                           cell_value lib (rows df ! i) ''total_sgst_amount'',
                           cell_value lib (rows df ! i) ''total_igst_amount'') of
                       (Some cgst, Some sgst, Some igst) \<Rightarrow> Some (cgst + sgst + igst)
                     | _ \<Rightarrow> total_tax))"
  by (simp add: resolve_total_tax_def summary_rd [OF cols i] bind_err_def split: option.splits)

lemma total_check_coerced:
  assumes cols: "set relation_cols_summary \<subseteq> set (columns df)" and i: "i < length (rows df)"
  shows "total_check lib (coerce_cols lib relation_cols_summary df) idx
           (rows (coerce_cols lib relation_cols_summary df) ! i) total_tax
         = (case cell_value lib (rows df ! i) ''total_taxable_value'' of
              None \<Rightarrow> Inr None
            | Some total_taxable_value \<Rightarrow>
                (case cell_value lib (rows df ! i) ''total_invoice_value'' of
                   None \<Rightarrow> Inr None
                 | Some total_invoice_value \<Rightarrow>
                     (case total_tax of
                        None \<Rightarrow> Inl (UnboundLocalError ''total_tax'')
                      | Some tax \<Rightarrow>
                          if \<not> isclose total_invoice_value (total_taxable_value + tax)
                          then Inr (Some (total_mismatch lib idx total_invoice_value
                                            total_taxable_value tax))
                          else Inr None)))"
  by (simp add: total_check_def summary_rd [OF cols i] bind_err_def split: option.splits)

lemma summary_rows_single:
  assumes cols: "set relation_cols_summary \<subseteq> set (columns df)" and one: "rows df = [r]"
  shows "summary_rows lib (coerce_cols lib relation_cols_summary df) 0 None
           (rows (coerce_cols lib relation_cols_summary df))
         = (case resolve_total_tax (coerce_cols lib relation_cols_summary df)
                   (rows (coerce_cols lib relation_cols_summary df) ! 0) None of
              Inl e \<Rightarrow> Inl e
            | Inr total_tax \<Rightarrow>
                total_check lib (coerce_cols lib relation_cols_summary df) 0
                  (rows (coerce_cols lib relation_cols_summary df) ! 0) total_tax)"
proof -
  have "length (rows (coerce_cols lib relation_cols_summary df)) = 1"
    using one by (simp add: coerce_cols_length)
  then obtain r' where r': "rows (coerce_cols lib relation_cols_summary df) = [r']"
    by (cases "rows (coerce_cols lib relation_cols_summary df)") auto
  show ?thesis
    unfolding r' by (auto split: sum.splits option.splits)
qed

lemma summary_frame_cols: "set relation_cols_summary \<subseteq> set (columns (summary_frame rs))"
  by (simp add: relation_cols_summary_def summary_frame_def numeric_cols_summary_def)

lemma cell_value_summary_row: "cell_value lib (summary_row kvs) c = map_of kvs c"
  by (simp add: cell_value_def summary_row_def split: option.splits)

section \<open>The engine on the IGST-only invoice\<close>

lemma igst_step1: "check_missing_values igst_header igst_items igst_summary = Inr (True, [])"
proof (rule check_missing_pass)
  show "set invoice_reads \<subseteq> set (columns igst_header)"
    by (simp add: igst_header_def header_frame_reads)
  show "set line_items_reads \<subseteq> set (columns igst_items)"
    by (simp add: igst_items_def items_frame_reads)
  show "set summary_reads \<subseteq> set (columns igst_summary)"
    by (simp add: igst_summary_def summary_frame_reads)
  show "\<forall>r \<in> set (rows igst_header). invoice_condition r"
    by (simp add: igst_header_def header_frame_def header_row_condition)
  show "\<forall>r \<in> set (rows igst_items). line_items_condition r"
    by (simp add: igst_items_def items_frame_def line_items_condition_def notna_def item_row_def)
  show "\<forall>r \<in> set (rows igst_summary). summary_condition r"
    by (simp add: igst_summary_def summary_frame_def summary_condition_def notna_def summary_row_def)
qed

lemma to_numeric_ok_item_row: "to_numeric_ok lib (item_row kvs c)"
  by (simp add: item_row_def split: option.splits)

lemma to_numeric_ok_summary_row: "to_numeric_ok lib (summary_row kvs c)"
  by (simp add: summary_row_def split: option.splits)

lemma igst_step2:
  "check_data_types example_lib igst_header igst_items igst_summary =
     ((True, []), mapcol igst_header ''invoice_date'' (to_datetime_cell example_lib))"
proof (rule check_data_types_pass)
  show "''invoice_date'' \<in> set (columns igst_header)"
    by (simp add: igst_header_def header_frame_def invoice_reads_def)
  show "\<forall>r \<in> set (rows igst_header).
          isna (r ''invoice_date'') \<or> to_datetime1 example_lib (r ''invoice_date'') \<noteq> None"
    by (simp add: igst_header_def header_frame_def header_row_def example_lib_def)
  show "set numeric_cols_invoice \<subseteq> set (columns igst_header)"
    by (simp add: igst_header_def header_frame_def invoice_reads_def numeric_cols_invoice_def)
  show "set numeric_cols_items \<subseteq> set (columns igst_items)"
    by (simp add: igst_items_def items_frame_def)
  show "set numeric_cols_summary \<subseteq> set (columns igst_summary)"
    by (simp add: igst_summary_def summary_frame_def)
  show "\<forall>r \<in> set (rows igst_header). \<forall>c \<in> set numeric_cols_invoice. to_numeric_ok example_lib (r c)"
    by (simp add: igst_header_def header_frame_def numeric_cols_invoice_def header_row_def)
  show "\<forall>r \<in> set (rows igst_items). \<forall>c \<in> set numeric_cols_items. to_numeric_ok example_lib (r c)"
    by (simp add: igst_items_def items_frame_def to_numeric_ok_item_row)
  show "\<forall>r \<in> set (rows igst_summary). \<forall>c \<in> set numeric_cols_summary. to_numeric_ok example_lib (r c)"
    by (simp add: igst_summary_def summary_frame_def to_numeric_ok_summary_row)
qed

lemma igst_step3:
  "fst (check_relations example_lib
          (mapcol igst_header ''invoice_date'' (to_datetime_cell example_lib))
          igst_items igst_summary)
     = Inl (UnboundLocalError ''total_tax'')"
proof -
  let ?d = "mapcol igst_header ''invoice_date'' (to_datetime_cell example_lib)"
  have close: "isclose 5900 (5000 + 900)"
    by (simp add: isclose_def atol_def rtol_def)
  have hc: "set relation_cols_invoice \<subseteq> set (columns ?d)"
    by (simp add: mapcol_columns igst_header_def header_frame_cols)
  have "\<not> invoice_relation_fails example_lib r" if "r \<in> set (rows ?d)" for r
    using that close
    by (simp add: mapcol_def igst_header_def header_frame_def invoice_relation_fails_def
        cell_value_def header_row_def)
  from invoice_loop_pass [OF hc this]
  have 1: "iterrows (invoice_row_check example_lib (coerce_cols example_lib relation_cols_invoice ?d)) 0
          (rows (coerce_cols example_lib relation_cols_invoice ?d)) = Inr None"
    by simp
  have ic: "set relation_cols_items \<subseteq> set (columns igst_items)"
    by (simp add: igst_items_def items_frame_cols)
  have 2: "iterrows (item_row_check example_lib (coerce_cols example_lib relation_cols_items igst_items)) 0
          (rows (coerce_cols example_lib relation_cols_items igst_items)) = Inr None"
  proof (rule iterrows_pass)
    fix i assume "i < length (rows (coerce_cols example_lib relation_cols_items igst_items))"
    then have i: "i < length (rows igst_items)" by (simp add: coerce_cols_length)
    then have r: "rows igst_items ! i = item_row [(''taxable_value'', 5000), (''igst_rate'', 18),
        (''igst_amount'', 900), (''final_amount'', 5900)]"
      by (simp add: igst_items_def items_frame_def)
    have b: "row_base example_lib (rows igst_items ! i) = Some 5000"
      unfolding r by (simp add: row_base_def cell_value_item_row)
    have e: "estimates example_lib (rows igst_items ! i) 5000 = []"
      unfolding r by (simp add: estimates_def cell_value_item_row)
    show "item_row_check example_lib (coerce_cols example_lib relation_cols_items igst_items) (0 + i)
            (rows (coerce_cols example_lib relation_cols_items igst_items) ! i) = Inr None"
      by (simp add: item_row_check_coerced [OF ic i] final_check_coerced [OF ic i] b e
          tax_disagree_iff split: option.splits)
  qed
  have sc: "set relation_cols_summary \<subseteq> set (columns igst_summary)"
    by (simp add: igst_summary_def summary_frame_cols)
  have one: "rows igst_summary = [summary_row [(''total_taxable_value'', 5000),
       (''total_igst_amount'', 900), (''total_invoice_value'', 5900)]]"
    by (simp add: igst_summary_def summary_frame_def)
  have l: "0 < length (rows igst_summary)" by (simp add: one)
  have 3: "summary_rows example_lib (coerce_cols example_lib relation_cols_summary igst_summary) 0 None
           (rows (coerce_cols example_lib relation_cols_summary igst_summary))
        = Inl (UnboundLocalError ''total_tax'')"
    by (simp add: summary_rows_single [OF sc one] resolve_total_tax_coerced [OF sc l]
        total_check_coerced [OF sc l] one cell_value_summary_row)
  from 1 2 3 show ?thesis
    by (simp add: check_relations_def relations_result_def Let_def)
qed

text \<open>
  C1, at a summary row the claim covers: total tax amount absent, the triple incomplete
  (only IGST present), taxable value and invoice value present. Steps 1 and 2 pass, and
  Step 3 does not skip the row: reading \<open>total_tax\<close>, which no path has assigned,
  raises, and the call returns no verdict.
\<close>

theorem unresolved_total_tax_raises:
  "fst (validate_invoice_data example_lib (example_heap igst_header igst_items igst_summary) 0 1 2)
     = Inl (UnboundLocalError ''total_tax'')"
proof -
  have a: "0 < next_free (example_heap igst_header igst_items igst_summary)"
    "1 < next_free (example_heap igst_header igst_items igst_summary)"
    "2 < next_free (example_heap igst_header igst_items igst_summary)"
    by (simp_all add: example_heap_simps)
  have n: "standardize_nulls igst_header = igst_header" "standardize_nulls igst_items = igst_items"
    "standardize_nulls igst_summary = igst_summary"
    by (simp_all only: igst_header_def igst_items_def igst_summary_def standardize_nulls_examples)
  show ?thesis
    unfolding validate_invoice_data_fst [OF a]
    by (simp only: example_heap_simps n)
       (simp add: verdict_of_def igst_step1 igst_step2 igst_step3)
qed

section \<open>The engine on the consistent invoice\<close>

lemma good_step1:
  "check_missing_values (header_frame [header_row 118 100 18]) good_items good_summary
     = Inr (True, [])"
proof (rule check_missing_pass)
  show "set invoice_reads \<subseteq> set (columns (header_frame [header_row 118 100 18]))"
    by (rule header_frame_reads)
  show "set line_items_reads \<subseteq> set (columns good_items)"
    by (simp add: good_items_def items_frame_reads)
  show "set summary_reads \<subseteq> set (columns good_summary)"
    by (simp add: good_summary_def summary_frame_reads)
  show "\<forall>r \<in> set (rows (header_frame [header_row 118 100 18])). invoice_condition r"
    by (simp add: header_frame_def header_row_condition)
  show "\<forall>r \<in> set (rows good_items). line_items_condition r"
    by (simp add: good_items_def items_frame_def line_items_condition_def notna_def item_row_def)
  show "\<forall>r \<in> set (rows good_summary). summary_condition r"
    by (simp add: good_summary_def summary_frame_def summary_condition_def notna_def summary_row_def)
qed

lemma good_step2:
  "check_data_types example_lib (header_frame [header_row 118 100 18]) good_items good_summary =
     ((True, []), mapcol (header_frame [header_row 118 100 18]) ''invoice_date''
                    (to_datetime_cell example_lib))"
proof (rule check_data_types_pass)
  show "''invoice_date'' \<in> set (columns (header_frame [header_row 118 100 18]))"
    by (simp add: header_frame_def invoice_reads_def)
  show "\<forall>r \<in> set (rows (header_frame [header_row 118 100 18])).
          isna (r ''invoice_date'') \<or> to_datetime1 example_lib (r ''invoice_date'') \<noteq> None"
    by (simp add: header_frame_def header_row_def example_lib_def)
  show "set numeric_cols_invoice \<subseteq> set (columns (header_frame [header_row 118 100 18]))"
    by (simp add: header_frame_def invoice_reads_def numeric_cols_invoice_def)
  show "set numeric_cols_items \<subseteq> set (columns good_items)"
    by (simp add: good_items_def items_frame_def)
  show "set numeric_cols_summary \<subseteq> set (columns good_summary)"
    by (simp add: good_summary_def summary_frame_def)
  show "\<forall>r \<in> set (rows (header_frame [header_row 118 100 18])).
          \<forall>c \<in> set numeric_cols_invoice. to_numeric_ok example_lib (r c)"
    by (simp add: header_frame_def numeric_cols_invoice_def header_row_def)
  show "\<forall>r \<in> set (rows good_items). \<forall>c \<in> set numeric_cols_items. to_numeric_ok example_lib (r c)"
    by (simp add: good_items_def items_frame_def to_numeric_ok_item_row)
  show "\<forall>r \<in> set (rows good_summary). \<forall>c \<in> set numeric_cols_summary. to_numeric_ok example_lib (r c)"
    by (simp add: good_summary_def summary_frame_def to_numeric_ok_summary_row)
qed

lemma isclose_18_18: "isclose (100 * (9 + 9 + 0) / 100) 18"
  by (simp add: isclose_def atol_def rtol_def)

lemma isclose_118_sum: "isclose 118 (100 + (9 + 9 + 0))"
  by (simp add: isclose_def atol_def rtol_def)

lemma good_step3:
  "fst (check_relations example_lib
          (mapcol (header_frame [header_row 118 100 18]) ''invoice_date''
             (to_datetime_cell example_lib))
          good_items good_summary)
     = Inr (True, [])"
proof -
  let ?d = "mapcol (header_frame [header_row 118 100 18]) ''invoice_date''
              (to_datetime_cell example_lib)"
  have hc: "set relation_cols_invoice \<subseteq> set (columns ?d)"
    by (simp add: mapcol_columns header_frame_cols)
  have "\<not> invoice_relation_fails example_lib r" if "r \<in> set (rows ?d)" for r
    using that isclose_118
    by (simp add: mapcol_def header_frame_def invoice_relation_fails_def
        cell_value_def header_row_def)
  from invoice_loop_pass [OF hc this]
  have 1: "iterrows (invoice_row_check example_lib (coerce_cols example_lib relation_cols_invoice ?d)) 0
          (rows (coerce_cols example_lib relation_cols_invoice ?d)) = Inr None"
    by simp
  have ic: "set relation_cols_items \<subseteq> set (columns good_items)"
    by (simp add: good_items_def items_frame_cols)
  have 2: "iterrows (item_row_check example_lib (coerce_cols example_lib relation_cols_items good_items)) 0
          (rows (coerce_cols example_lib relation_cols_items good_items)) = Inr None"
  proof (rule iterrows_pass)
    fix i assume "i < length (rows (coerce_cols example_lib relation_cols_items good_items))"
    then have i: "i < length (rows good_items)" by (simp add: coerce_cols_length)
    then have r: "rows good_items ! i = item_row [(''taxable_value'', 100), (''sgst_rate'', 9),
        (''cgst_rate'', 9), (''igst_rate'', 0), (''tax_amount'', 18), (''final_amount'', 118)]"
      by (simp add: good_items_def items_frame_def)
    have b: "row_base example_lib (rows good_items ! i) = Some 100"
      unfolding r by (simp add: row_base_def cell_value_item_row)
    have e: "estimates example_lib (rows good_items ! i) 100 = [100 * (9 + 9 + 0) / 100, 18]"
      unfolding r by (simp add: estimates_def cell_value_item_row)
    have f: "cell_value example_lib (rows good_items ! i) ''final_amount'' = Some 118"
      unfolding r by (simp add: cell_value_item_row)
    have nf: "\<not> successive_far [100 * (9 + 9 + 0) / 100, 18]"
      using isclose_18_18 by (simp add: successive_far_def)
    have cl: "isclose 118 (100 + 100 * (9 + 9 + 0) / 100)"
      by (simp add: isclose_def atol_def rtol_def)
    show "item_row_check example_lib (coerce_cols example_lib relation_cols_items good_items) (0 + i)
            (rows (coerce_cols example_lib relation_cols_items good_items) ! i) = Inr None"
      using nf cl
      by (simp add: item_row_check_coerced [OF ic i] final_check_coerced [OF ic i] b e f
          tax_disagree_iff)
  qed
  have sc: "set relation_cols_summary \<subseteq> set (columns good_summary)"
    by (simp add: good_summary_def summary_frame_cols)
  have one: "rows good_summary = [summary_row [(''total_taxable_value'', 100),
       (''total_cgst_amount'', 9), (''total_sgst_amount'', 9), (''total_igst_amount'', 0),
       (''total_invoice_value'', 118)]]"
    by (simp add: good_summary_def summary_frame_def)
  have l: "0 < length (rows good_summary)" by (simp add: one)
  have 3: "summary_rows example_lib (coerce_cols example_lib relation_cols_summary good_summary) 0 None
           (rows (coerce_cols example_lib relation_cols_summary good_summary)) = Inr None"
    using isclose_118_sum
    by (simp add: summary_rows_single [OF sc one] resolve_total_tax_coerced [OF sc l]
        total_check_coerced [OF sc l] one cell_value_summary_row)
  from 1 2 3 show ?thesis
    by (simp add: check_relations_def relations_result_def Let_def)
qed

lemma good_heap:
  "0 < next_free (example_heap (header_frame [header_row 118 100 18]) good_items good_summary)"
  "1 < next_free (example_heap (header_frame [header_row 118 100 18]) good_items good_summary)"
  "2 < next_free (example_heap (header_frame [header_row 118 100 18]) good_items good_summary)"
  by (simp_all add: example_heap_simps)

lemma good_normalised:
  "standardize_nulls (header_frame [header_row 118 100 18]) = header_frame [header_row 118 100 18]"
  "standardize_nulls good_items = good_items"
  "standardize_nulls good_summary = good_summary"
  by (simp_all only: good_items_def good_summary_def standardize_nulls_examples)

section \<open>The comparator at every comparison\<close>

text \<open>
  C2, amended. Every comparison of Step 3 is the one comparator
  \<^verbatim>\<open>np.isclose(a, b, rtol=1e-05)\<close>, called with the stated value first and the derived
  value second: the invoice value against taxable value plus tax amount, each tax estimate
  against the next one, the final amount against base value plus the first estimate, and
  the total invoice value against total taxable value plus the resolved total tax; a check
  fails exactly when its comparison does not hold. The comparator is not symmetric in its
  operands (99999 is close to 100000, 100000 is not close to 99999) and its verdict is not
  kept by scaling both operands (\<open>5e-9\<close> is close to 0, \<open>5\<close> is not).
\<close>

theorem comparisons_by_isclose:
  assumes ic: "set relation_cols_invoice \<subseteq> set (columns invoice_df)"
    and i: "i < length (rows invoice_df)"
    and lc: "set relation_cols_items \<subseteq> set (columns line_items_df)"
    and j: "j < length (rows line_items_df)"
    and sc: "set relation_cols_summary \<subseteq> set (columns total_summary_df)"
    and k: "k < length (rows total_summary_df)"
  shows
    "(invoice_row_check lib (coerce_cols lib relation_cols_invoice invoice_df) idx
        (rows (coerce_cols lib relation_cols_invoice invoice_df) ! i) \<noteq> Inr None
      \<longleftrightarrow> (\<exists>invoice_value taxable_value tax_amount.
            cell_value lib (rows invoice_df ! i) ''invoice_value'' = Some invoice_value \<and>
            cell_value lib (rows invoice_df ! i) ''taxable_value'' = Some taxable_value \<and>
            cell_value lib (rows invoice_df ! i) ''tax_amount'' = Some tax_amount \<and>
            \<not> isclose invoice_value (taxable_value + tax_amount))) \<and>
     (item_row_check lib (coerce_cols lib relation_cols_items line_items_df) idx
        (rows (coerce_cols lib relation_cols_items line_items_df) ! j)
        = Inr (Some (''Tax amount mismatch at row '' @ str_nat idx
                 @ '': Different tax calculations yield different results''))
      \<longleftrightarrow> (\<exists>base n.
            row_base lib (rows line_items_df ! j) = Some base \<and>
            Suc n < length (estimates lib (rows line_items_df ! j) base) \<and>
            \<not> isclose (estimates lib (rows line_items_df ! j) base ! n)
                  (estimates lib (rows line_items_df ! j) base ! Suc n))) \<and>
     ((\<exists>m. item_row_check lib (coerce_cols lib relation_cols_items line_items_df) idx
             (rows (coerce_cols lib relation_cols_items line_items_df) ! j) = Inr (Some m) \<and>
           m \<noteq> ''Tax amount mismatch at row '' @ str_nat idx
                 @ '': Different tax calculations yield different results'')
      \<longleftrightarrow> (\<exists>base tax_amount rest final_amount.
            row_base lib (rows line_items_df ! j) = Some base \<and>
            estimates lib (rows line_items_df ! j) base = tax_amount # rest \<and>
            \<not> tax_disagree (tax_amount # rest) \<and>
            cell_value lib (rows line_items_df ! j) ''final_amount'' = Some final_amount \<and>
            \<not> isclose final_amount (base + tax_amount))) \<and>
     (\<forall>total_tax.
        total_check lib (coerce_cols lib relation_cols_summary total_summary_df) idx
          (rows (coerce_cols lib relation_cols_summary total_summary_df) ! k) (Some total_tax)
          \<noteq> Inr None
        \<longleftrightarrow> (\<exists>total_taxable_value total_invoice_value.
              cell_value lib (rows total_summary_df ! k) ''total_taxable_value''
                = Some total_taxable_value \<and>
              cell_value lib (rows total_summary_df ! k) ''total_invoice_value''
                = Some total_invoice_value \<and>
              \<not> isclose total_invoice_value (total_taxable_value + total_tax))) \<and>
     isclose 99999 100000 \<and> \<not> isclose 100000 99999 \<and>
     isclose (5 / 10 ^ 9) 0 \<and> \<not> isclose (10 ^ 9 * (5 / 10 ^ 9)) (10 ^ 9 * 0)"
proof (intro conjI allI)
  show "invoice_row_check lib (coerce_cols lib relation_cols_invoice invoice_df) idx
        (rows (coerce_cols lib relation_cols_invoice invoice_df) ! i) \<noteq> Inr None
      \<longleftrightarrow> (\<exists>invoice_value taxable_value tax_amount.
            cell_value lib (rows invoice_df ! i) ''invoice_value'' = Some invoice_value \<and>
            cell_value lib (rows invoice_df ! i) ''taxable_value'' = Some taxable_value \<and>
            cell_value lib (rows invoice_df ! i) ''tax_amount'' = Some tax_amount \<and>
            \<not> isclose invoice_value (taxable_value + tax_amount))"
    by (simp add: invoice_row_check_fails_iff [OF ic i] invoice_relation_fails_iff)
  have far: "successive_far es \<longleftrightarrow> (\<exists>n. Suc n < length es \<and> \<not> isclose (es ! n) (es ! Suc n))" for es
  proof
    assume "successive_far es"
    then obtain n where "n < length es - 1" "\<not> isclose (es ! n) (es ! Suc n)"
      by (auto simp: successive_far_def list_ex_iff)
    then have "Suc n < length es \<and> \<not> isclose (es ! n) (es ! Suc n)" by simp
    then show "\<exists>n. Suc n < length es \<and> \<not> isclose (es ! n) (es ! Suc n)" ..
  next
    assume "\<exists>n. Suc n < length es \<and> \<not> isclose (es ! n) (es ! Suc n)"
    then obtain n where "Suc n < length es" "\<not> isclose (es ! n) (es ! Suc n)" by blast
    then have "n \<in> set [0..<length es - 1]" "\<not> isclose (es ! n) (es ! Suc n)" by simp_all
    then show "successive_far es"
      unfolding successive_far_def list_ex_iff by blast
  qed
  have two: "Suc n < length es \<Longrightarrow> 2 \<le> length es" for n and es :: "real list"
    by simp
  show "item_row_check lib (coerce_cols lib relation_cols_items line_items_df) idx
        (rows (coerce_cols lib relation_cols_items line_items_df) ! j)
        = Inr (Some (''Tax amount mismatch at row '' @ str_nat idx
                 @ '': Different tax calculations yield different results''))
      \<longleftrightarrow> (\<exists>base n.
            row_base lib (rows line_items_df ! j) = Some base \<and>
            Suc n < length (estimates lib (rows line_items_df ! j) base) \<and>
            \<not> isclose (estimates lib (rows line_items_df ! j) base ! n)
                  (estimates lib (rows line_items_df ! j) base ! Suc n))"
    using item_row_check_tax_iff [OF lc j, of lib idx] two
    unfolding tax_mismatch_def far by blast
  show "(\<exists>m. item_row_check lib (coerce_cols lib relation_cols_items line_items_df) idx
             (rows (coerce_cols lib relation_cols_items line_items_df) ! j) = Inr (Some m) \<and>
           m \<noteq> ''Tax amount mismatch at row '' @ str_nat idx
                 @ '': Different tax calculations yield different results'')
      \<longleftrightarrow> (\<exists>base tax_amount rest final_amount.
            row_base lib (rows line_items_df ! j) = Some base \<and>
            estimates lib (rows line_items_df ! j) base = tax_amount # rest \<and>
            \<not> tax_disagree (tax_amount # rest) \<and>
            cell_value lib (rows line_items_df ! j) ''final_amount'' = Some final_amount \<and>
            \<not> isclose final_amount (base + tax_amount))"
    unfolding tax_mismatch_def [symmetric]
    by (auto simp: item_row_check_coerced [OF lc j] final_check_coerced [OF lc j]
        final_mismatch_not_tax split: option.splits list.splits if_splits)
  fix total_tax
  show "total_check lib (coerce_cols lib relation_cols_summary total_summary_df) idx
          (rows (coerce_cols lib relation_cols_summary total_summary_df) ! k) (Some total_tax)
          \<noteq> Inr None
        \<longleftrightarrow> (\<exists>total_taxable_value total_invoice_value.
              cell_value lib (rows total_summary_df ! k) ''total_taxable_value''
                = Some total_taxable_value \<and>
              cell_value lib (rows total_summary_df ! k) ''total_invoice_value''
                = Some total_invoice_value \<and>
              \<not> isclose total_invoice_value (total_taxable_value + total_tax))"
    by (auto simp: total_check_coerced [OF sc k] split: option.splits)
qed (simp_all add: isclose_def atol_def rtol_def)


theorem comparisons_by_isclose_witness:
  "invoice_row_check example_lib
     (coerce_cols example_lib relation_cols_invoice (header_frame [header_row 120 100 18])) 0
     (rows (coerce_cols example_lib relation_cols_invoice (header_frame [header_row 120 100 18])) ! 0)
     \<noteq> Inr None \<and>
   total_check example_lib (coerce_cols example_lib relation_cols_summary good_summary) 0
     (rows (coerce_cols example_lib relation_cols_summary good_summary) ! 0) (Some 18)
     = Inr None"
proof -
  have i: "0 < length (rows (header_frame [header_row 120 100 18]))"
    by (simp add: header_frame_def)
  have lc: "set relation_cols_items \<subseteq> set (columns good_items)"
    by (simp add: good_items_def items_frame_cols)
  have j: "0 < length (rows good_items)"
    by (simp add: good_items_def items_frame_def)
  have sc: "set relation_cols_summary \<subseteq> set (columns good_summary)"
    by (simp add: good_summary_def summary_frame_cols)
  have k: "0 < length (rows good_summary)"
    by (simp add: good_summary_def summary_frame_def)
  note t = comparisons_by_isclose [OF header_frame_cols i lc j sc k, of example_lib 0]
  have h: "\<exists>invoice_value taxable_value tax_amount.
            cell_value example_lib (rows (header_frame [header_row 120 100 18]) ! 0) ''invoice_value''
              = Some invoice_value \<and>
            cell_value example_lib (rows (header_frame [header_row 120 100 18]) ! 0) ''taxable_value''
              = Some taxable_value \<and>
            cell_value example_lib (rows (header_frame [header_row 120 100 18]) ! 0) ''tax_amount''
              = Some tax_amount \<and>
            \<not> isclose invoice_value (taxable_value + tax_amount)"
    using not_isclose_120 by (simp add: header_frame_def cell_value_header_row)
  have s: "\<not> (\<exists>total_taxable_value total_invoice_value.
              cell_value example_lib (rows good_summary ! 0) ''total_taxable_value''
                = Some total_taxable_value \<and>
              cell_value example_lib (rows good_summary ! 0) ''total_invoice_value''
                = Some total_invoice_value \<and>
              \<not> isclose total_invoice_value (total_taxable_value + 18))"
    using isclose_118 by (simp add: good_summary_def summary_frame_def cell_value_summary_row)
  from t [THEN conjunct1] h
    t [THEN conjunct2, THEN conjunct2, THEN conjunct2, THEN conjunct1, THEN spec, of 18] s
  show ?thesis by blast
qed

section \<open>The verdict of the engine\<close>

lemma check_missing_raises:
  "check_missing_values invoice_df line_items_df total_summary_df = Inl e \<Longrightarrow> \<exists>c. e = KeyError c"
  by (auto simp: check_missing_values_def split: option.splits)

lemma check_missing_no_raise:
  assumes "set invoice_reads \<subseteq> set (columns invoice_df)"
      "set line_items_reads \<subseteq> set (columns line_items_df)"
      "set summary_reads \<subseteq> set (columns total_summary_df)"
  shows "check_missing_values invoice_df line_items_df total_summary_df \<noteq> Inl e"
proof -
  have "first_missing invoice_df invoice_reads = None"
    "first_missing line_items_df line_items_reads = None"
    "first_missing total_summary_df summary_reads = None"
    using assms by (simp_all add: first_missing_None)
  then show ?thesis
    by (simp add: check_missing_values_def split: option.splits)
qed

lemma verdict_of_raise:
  "verdict_of lib i l s = Inl e \<longleftrightarrow>
     check_missing_values i l s = Inl e \<or>
     ((\<exists>m1. check_missing_values i l s = Inr (True, m1)) \<and>
      (\<exists>m2 d. check_data_types lib i l s = ((True, m2), d) \<and>
              fst (check_relations lib d l s) = Inl e))"
  by (cases rule: verdict_of_cases [of i l s lib]) simp_all

lemma standardize_nulls_empty:
  "standardize_nulls \<lparr>columns = [], rows = []\<rparr> = \<lparr>columns = [], rows = []\<rparr>"
  by (simp add: standardize_nulls_def)

lemma no_items_step1:
  "check_missing_values (header_frame [header_row 118 100 18]) \<lparr>columns = [], rows = []\<rparr> s
     = Inl (KeyError ''tax_amount'')"
proof -
  have "first_missing (header_frame [header_row 118 100 18]) invoice_reads = None"
    by (simp add: first_missing_None header_frame_reads)
  moreover have "first_false (map invoice_condition (rows (header_frame [header_row 118 100 18]))) = None"
    by (simp add: first_false_None header_frame_def header_row_condition)
  moreover have "first_missing \<lparr>columns = [], rows = []\<rparr> line_items_reads = Some ''tax_amount''"
    by (simp add: first_missing_def line_items_reads_def)
  ultimately show ?thesis by (simp add: check_missing_values_def)
qed

text \<open>
  C8, as the claim states it, fails: the call does not always return a triple. With no
  line items the line-item frame has no columns, Step 1 raises \<^verbatim>\<open>KeyError\<close> on the
  first column it reads there, and a summary row that violates its presence condition is
  not reported; and on the IGST-only invoice, whose rows all satisfy their presence
  conditions, Step 3 raises.
\<close>

theorem verdict_always_tuple_counterexample:
  "\<not> summary_condition (summary_row [(''total_taxable_value'', 100), (''total_invoice_value'', 118)]) \<and>
   fst (validate_invoice_data example_lib
     (example_heap (header_frame [header_row 118 100 18]) \<lparr>columns = [], rows = []\<rparr>
        (summary_frame (map summary_row [[(''total_taxable_value'', 100),
                                          (''total_invoice_value'', 118)]])))
     0 1 2)
   = Inl (KeyError ''tax_amount'') \<and>
   fst (validate_invoice_data example_lib (example_heap igst_header igst_items igst_summary) 0 1 2)
   = Inl (UnboundLocalError ''total_tax'')"
proof -
  let ?s = "summary_frame (map summary_row [[(''total_taxable_value'', 100),
                                          (''total_invoice_value'', 118)]])"
  let ?h = "example_heap (header_frame [header_row 118 100 18]) \<lparr>columns = [], rows = []\<rparr> ?s"
  have a: "0 < next_free ?h" "1 < next_free ?h" "2 < next_free ?h"
    by (simp_all add: example_heap_simps)
  have A: "fst (validate_invoice_data example_lib ?h 0 1 2) = Inl (KeyError ''tax_amount'')"
    unfolding validate_invoice_data_fst [OF a]
    by (simp only: example_heap_simps standardize_nulls_examples standardize_nulls_empty)
       (simp add: verdict_of_def no_items_step1)
  have b: "0 < next_free (example_heap igst_header igst_items igst_summary)"
    "1 < next_free (example_heap igst_header igst_items igst_summary)"
    "2 < next_free (example_heap igst_header igst_items igst_summary)"
    by (simp_all add: example_heap_simps)
  have n: "standardize_nulls igst_header = igst_header" "standardize_nulls igst_items = igst_items"
    "standardize_nulls igst_summary = igst_summary"
    by (simp_all only: igst_header_def igst_items_def igst_summary_def standardize_nulls_examples)
  have B: "fst (validate_invoice_data example_lib (example_heap igst_header igst_items igst_summary) 0 1 2)
     = Inl (UnboundLocalError ''total_tax'')"
    unfolding validate_invoice_data_fst [OF b]
    by (simp only: example_heap_simps n)
       (simp add: verdict_of_def igst_step1 igst_step2 igst_step3)
  have C: "\<not> summary_condition (summary_row [(''total_taxable_value'', 100), (''total_invoice_value'', 118)])"
    by (simp add: summary_condition_def notna_def summary_row_def)
  from A B C show ?thesis by simp
qed

text \<open>
  C8, amended. For caller's frames that are objects of the heap, the call either raises or
  returns a triple, which is \<open>(True, All Steps, Validation successful)\<close> or \<open>False\<close>
  with the label of one of the three steps. The label is that of Step 1 exactly when Step 1
  fails, of Step 2 exactly when Step 1 passes and Step 2 fails, of Step 3 exactly when
  Steps 1 and 2 pass and Step 3 fails, and the triple is the success triple exactly when
  all three pass. The call raises exactly when Step 1 raises, or Steps 1 and 2 pass and
  Step 3 raises; what Step 1 raises is a \<^verbatim>\<open>KeyError\<close>, and it raises nothing when the
  frames hold the columns it reads. When they do and some row of some frame violates the
  presence condition of its frame, the label is that of Step 1, and the details name the
  first frame, in the order invoice, line items, summary, with such a row, and its first
  such row.
\<close>

theorem verdict_gates:
  fixes lib :: pandas_lib and h :: heap and a1 a2 a3 :: nat
  defines "R \<equiv> fst (validate_invoice_data lib h a1 a2 a3)"
    and "invoice_df \<equiv> standardize_nulls (objs h a1)"
    and "line_items_df \<equiv> standardize_nulls (objs h a2)"
    and "total_summary_df \<equiv> standardize_nulls (objs h a3)"
  assumes allocated: "a1 < next_free h" "a2 < next_free h" "a3 < next_free h"
  shows
    "(R = Inr (True, ''All Steps'', ''Validation successful'') \<or>
      (\<exists>m. R = Inr (False, ''Step 1: Missing Values'', m)) \<or>
      (\<exists>m. R = Inr (False, ''Step 2: Data Types'', m)) \<or>
      (\<exists>m. R = Inr (False, ''Step 3: Relations'', m)) \<or>
      (\<exists>e. R = Inl e)) \<and>
     (\<forall>m. R = Inr (False, ''Step 1: Missing Values'', m)
        \<longleftrightarrow> check_missing_values invoice_df line_items_df total_summary_df = Inr (False, m)) \<and>
     (\<forall>m. R = Inr (False, ''Step 2: Data Types'', m)
        \<longleftrightarrow> (\<exists>m1. check_missing_values invoice_df line_items_df total_summary_df = Inr (True, m1)) \<and>
            (\<exists>d. check_data_types lib invoice_df line_items_df total_summary_df = ((False, m), d))) \<and>
     (\<forall>m. R = Inr (False, ''Step 3: Relations'', m)
        \<longleftrightarrow> (\<exists>m1. check_missing_values invoice_df line_items_df total_summary_df = Inr (True, m1)) \<and>
            (\<exists>m2 d. check_data_types lib invoice_df line_items_df total_summary_df = ((True, m2), d) \<and>
                    fst (check_relations lib d line_items_df total_summary_df) = Inr (False, m))) \<and>
     (R = Inr (True, ''All Steps'', ''Validation successful'')
        \<longleftrightarrow> (\<exists>m1. check_missing_values invoice_df line_items_df total_summary_df = Inr (True, m1)) \<and>
            (\<exists>m2 d m3. check_data_types lib invoice_df line_items_df total_summary_df = ((True, m2), d) \<and>
                       fst (check_relations lib d line_items_df total_summary_df) = Inr (True, m3))) \<and>
     (\<forall>k. set invoice_reads \<subseteq> set (columns invoice_df) \<and>
          k < length (rows invoice_df) \<and> \<not> invoice_condition (rows invoice_df ! k) \<and>
          (\<forall>j < k. invoice_condition (rows invoice_df ! j)) \<longrightarrow>
          R = Inr (False, ''Step 1: Missing Values'',
                   ''Missing required values in invoice_df: ''
                     @ join_comma (missing_cols invoice_df k) @ '' at row '' @ str_nat k)) \<and>
     (\<forall>k. set invoice_reads \<subseteq> set (columns invoice_df) \<and>
          set line_items_reads \<subseteq> set (columns line_items_df) \<and>
          (\<forall>r \<in> set (rows invoice_df). invoice_condition r) \<and>
          k < length (rows line_items_df) \<and> \<not> line_items_condition (rows line_items_df ! k) \<and>
          (\<forall>j < k. line_items_condition (rows line_items_df ! j)) \<longrightarrow>
          R = Inr (False, ''Step 1: Missing Values'',
                   ''Missing required values in line_items_df at row '' @ str_nat k)) \<and>
     (\<forall>k. set invoice_reads \<subseteq> set (columns invoice_df) \<and>
          set line_items_reads \<subseteq> set (columns line_items_df) \<and>
          set summary_reads \<subseteq> set (columns total_summary_df) \<and>
          (\<forall>r \<in> set (rows invoice_df). invoice_condition r) \<and>
          (\<forall>r \<in> set (rows line_items_df). line_items_condition r) \<and>
          k < length (rows total_summary_df) \<and>
          \<not> summary_condition (rows total_summary_df ! k) \<and>
          (\<forall>j < k. summary_condition (rows total_summary_df ! j)) \<longrightarrow>
          R = Inr (False, ''Step 1: Missing Values'',
                   ''Missing required values in total_summary_df at row '' @ str_nat k)) \<and>
     (set invoice_reads \<subseteq> set (columns invoice_df) \<and>
      set line_items_reads \<subseteq> set (columns line_items_df) \<and>
      set summary_reads \<subseteq> set (columns total_summary_df) \<and>
      ((\<exists>r \<in> set (rows invoice_df). \<not> invoice_condition r) \<or>
       (\<exists>r \<in> set (rows line_items_df). \<not> line_items_condition r) \<or>
       (\<exists>r \<in> set (rows total_summary_df). \<not> summary_condition r)) \<longrightarrow>
      (\<exists>m. R = Inr (False, ''Step 1: Missing Values'', m))) \<and>
     (\<forall>e. R = Inl e
        \<longleftrightarrow> check_missing_values invoice_df line_items_df total_summary_df = Inl e \<or>
            ((\<exists>m1. check_missing_values invoice_df line_items_df total_summary_df = Inr (True, m1)) \<and>
             (\<exists>m2 d. check_data_types lib invoice_df line_items_df total_summary_df = ((True, m2), d) \<and>
                     fst (check_relations lib d line_items_df total_summary_df) = Inl e))) \<and>
     (\<forall>e. check_missing_values invoice_df line_items_df total_summary_df = Inl e
        \<longrightarrow> (\<exists>c. e = KeyError c)) \<and>
     (set invoice_reads \<subseteq> set (columns invoice_df) \<and>
      set line_items_reads \<subseteq> set (columns line_items_df) \<and>
      set summary_reads \<subseteq> set (columns total_summary_df) \<longrightarrow>
      (\<forall>e. check_missing_values invoice_df line_items_df total_summary_df \<noteq> Inl e))"
proof -
  have R: "R = verdict_of lib invoice_df line_items_df total_summary_df"
    unfolding R_def invoice_df_def line_items_df_def total_summary_df_def
    by (rule validate_invoice_data_fst [OF allocated])
  note g = verdict_of_gates [of lib invoice_df line_items_df total_summary_df, folded R]
  have step1: "R = Inr (False, ''Step 1: Missing Values'', m)"
    if "check_missing_values invoice_df line_items_df total_summary_df = Inr (False, m)" for m
    using g [THEN conjunct2, THEN conjunct1] that by simp
  have p1: "R = Inr (False, ''Step 1: Missing Values'',
                   ''Missing required values in invoice_df: ''
                     @ join_comma (missing_cols invoice_df k) @ '' at row '' @ str_nat k)"
    if "set invoice_reads \<subseteq> set (columns invoice_df) \<and>
          k < length (rows invoice_df) \<and> \<not> invoice_condition (rows invoice_df ! k) \<and>
          (\<forall>j < k. invoice_condition (rows invoice_df ! j))" for k
    by (rule step1, rule check_missing_invoice_fails) (use that in blast)+
  have p2: "R = Inr (False, ''Step 1: Missing Values'',
                   ''Missing required values in line_items_df at row '' @ str_nat k)"
    if "set invoice_reads \<subseteq> set (columns invoice_df) \<and>
          set line_items_reads \<subseteq> set (columns line_items_df) \<and>
          (\<forall>r \<in> set (rows invoice_df). invoice_condition r) \<and>
          k < length (rows line_items_df) \<and> \<not> line_items_condition (rows line_items_df ! k) \<and>
          (\<forall>j < k. line_items_condition (rows line_items_df ! j))" for k
    by (rule step1, rule check_missing_items_fails) (use that in blast)+
  have p3: "R = Inr (False, ''Step 1: Missing Values'',
                   ''Missing required values in total_summary_df at row '' @ str_nat k)"
    if "set invoice_reads \<subseteq> set (columns invoice_df) \<and>
          set line_items_reads \<subseteq> set (columns line_items_df) \<and>
          set summary_reads \<subseteq> set (columns total_summary_df) \<and>
          (\<forall>r \<in> set (rows invoice_df). invoice_condition r) \<and>
          (\<forall>r \<in> set (rows line_items_df). line_items_condition r) \<and>
          k < length (rows total_summary_df) \<and>
          \<not> summary_condition (rows total_summary_df ! k) \<and>
          (\<forall>j < k. summary_condition (rows total_summary_df ! j))" for k
    by (rule step1, rule check_missing_summary_fails) (use that in blast)+
  have p4: "\<exists>m. R = Inr (False, ''Step 1: Missing Values'', m)"
    if "set invoice_reads \<subseteq> set (columns invoice_df) \<and>
      set line_items_reads \<subseteq> set (columns line_items_df) \<and>
      set summary_reads \<subseteq> set (columns total_summary_df) \<and>
      ((\<exists>r \<in> set (rows invoice_df). \<not> invoice_condition r) \<or>
       (\<exists>r \<in> set (rows line_items_df). \<not> line_items_condition r) \<or>
       (\<exists>r \<in> set (rows total_summary_df). \<not> summary_condition r))"
  proof -
    from that obtain m where
      "check_missing_values invoice_df line_items_df total_summary_df = Inr (False, m)"
      using check_missing_fails_any [of invoice_df line_items_df total_summary_df] by blast
    from step1 [OF this] show ?thesis by blast
  qed
  have p5: "\<forall>e. R = Inl e
        \<longleftrightarrow> check_missing_values invoice_df line_items_df total_summary_df = Inl e \<or>
            ((\<exists>m1. check_missing_values invoice_df line_items_df total_summary_df = Inr (True, m1)) \<and>
             (\<exists>m2 d. check_data_types lib invoice_df line_items_df total_summary_df = ((True, m2), d) \<and>
                     fst (check_relations lib d line_items_df total_summary_df) = Inl e))"
    unfolding R by (intro allI, rule verdict_of_raise)
  have p6: "\<forall>e. check_missing_values invoice_df line_items_df total_summary_df = Inl e
        \<longrightarrow> (\<exists>c. e = KeyError c)"
    by (intro allI impI, erule check_missing_raises)
  have p7: "\<forall>e. check_missing_values invoice_df line_items_df total_summary_df \<noteq> Inl e"
    if "set invoice_reads \<subseteq> set (columns invoice_df) \<and>
      set line_items_reads \<subseteq> set (columns line_items_df) \<and>
      set summary_reads \<subseteq> set (columns total_summary_df)"
    by (intro allI, rule check_missing_no_raise) (use that in blast)+
  show ?thesis
    apply (intro conjI)
               apply (rule g [THEN conjunct1])
          apply (rule g [THEN conjunct2, THEN conjunct1])
         apply (rule g [THEN conjunct2, THEN conjunct2, THEN conjunct1])
        apply (rule g [THEN conjunct2, THEN conjunct2, THEN conjunct2, THEN conjunct1])
       apply (rule g [THEN conjunct2, THEN conjunct2, THEN conjunct2, THEN conjunct2, THEN conjunct1])
      apply (intro allI impI, erule p1)
     apply (intro allI impI, erule p2)
     apply (intro allI impI, erule p3)
       apply (intro impI, erule p4)
      apply (rule p5)
     apply (rule p6)
    apply (intro impI, erule p7)
    done
qed

theorem verdict_gates_witness:
  "fst (validate_invoice_data example_lib
     (example_heap (header_frame [header_row 118 100 18]) good_items good_summary) 0 1 2)
   = Inr (True, ''All Steps'', ''Validation successful'') \<and>
   fst (validate_invoice_data example_lib
     (example_heap (header_frame [header_row 118 100 18])
        (items_frame (map item_row [[(''taxable_value'', 100), (''tax_amount'', 18)]]))
        (summary_frame (map summary_row [[(''total_taxable_value'', 100),
                                          (''total_invoice_value'', 118)]])))
     0 1 2)
   = Inr (False, ''Step 1: Missing Values'', ''Missing required values in total_summary_df at row 0'')"
proof -
  let ?g = "example_heap (header_frame [header_row 118 100 18]) good_items good_summary"
  let ?h = "example_heap (header_frame [header_row 118 100 18])
        (items_frame (map item_row [[(''taxable_value'', 100), (''tax_amount'', 18)]]))
        (summary_frame (map summary_row [[(''total_taxable_value'', 100),
                                          (''total_invoice_value'', 118)]]))"
  have pass: "(\<exists>m1. check_missing_values (standardize_nulls (objs ?g 0))
                 (standardize_nulls (objs ?g 1)) (standardize_nulls (objs ?g 2)) = Inr (True, m1)) \<and>
      (\<exists>m2 d m3. check_data_types example_lib (standardize_nulls (objs ?g 0))
                   (standardize_nulls (objs ?g 1)) (standardize_nulls (objs ?g 2)) = ((True, m2), d) \<and>
                 fst (check_relations example_lib d (standardize_nulls (objs ?g 1))
                        (standardize_nulls (objs ?g 2))) = Inr (True, m3))"
    by (simp only: example_heap_simps good_normalised good_step1 good_step2)
       (simp add: good_step3)
  have A: "fst (validate_invoice_data example_lib ?g 0 1 2)
             = Inr (True, ''All Steps'', ''Validation successful'')"
    using verdict_gates [OF good_heap, THEN conjunct2, THEN conjunct2, THEN conjunct2,
        THEN conjunct2, THEN conjunct1] pass
    by blast
  have a: "0 < next_free ?h" "1 < next_free ?h" "2 < next_free ?h"
    by (simp_all add: example_heap_simps)
  have li: "line_items_condition (item_row [(''taxable_value'', 100), (''tax_amount'', 18)])"
    by (simp add: line_items_condition_def notna_def item_row_def)
  have su: "\<not> summary_condition (summary_row [(''total_taxable_value'', 100),
                                          (''total_invoice_value'', 118)])"
    by (simp add: summary_condition_def notna_def summary_row_def)
  have pre: "set invoice_reads \<subseteq> set (columns (standardize_nulls (objs ?h 0))) \<and>
          set line_items_reads \<subseteq> set (columns (standardize_nulls (objs ?h 1))) \<and>
          set summary_reads \<subseteq> set (columns (standardize_nulls (objs ?h 2))) \<and>
          (\<forall>r \<in> set (rows (standardize_nulls (objs ?h 0))). invoice_condition r) \<and>
          (\<forall>r \<in> set (rows (standardize_nulls (objs ?h 1))). line_items_condition r) \<and>
          0 < length (rows (standardize_nulls (objs ?h 2))) \<and>
          \<not> summary_condition (rows (standardize_nulls (objs ?h 2)) ! 0) \<and>
          (\<forall>j < 0. summary_condition (rows (standardize_nulls (objs ?h 2)) ! j))"
    using li su header_row_condition [of 118 100 18]
    by (simp only: example_heap_simps standardize_nulls_examples header_frame_reads
        items_frame_reads summary_frame_reads)
       (simp add: header_frame_def items_frame_def summary_frame_def)
  have B: "fst (validate_invoice_data example_lib ?h 0 1 2)
     = Inr (False, ''Step 1: Missing Values'', ''Missing required values in total_summary_df at row 0'')"
    using verdict_gates [OF a, THEN conjunct2, THEN conjunct2, THEN conjunct2, THEN conjunct2,
        THEN conjunct2, THEN conjunct2, THEN conjunct2, THEN conjunct1, rule_format, OF pre]
    by (simp add: str_nat_examples)
  from A B show ?thesis by simp
qed

end
